theory Spec2Isabelle
  imports Complex_Main "HOL-Library.AList" "HOL-Library.Monad_Syntax"
begin

section \<open>Units and geometry\<close>

text \<open>
  Coordinates are database units (DBU), C++ \<open>int\<close> in \<open>odb::Point\<close> and \<open>odb::Rect\<close>.
  They are modelled as unbounded \<open>int\<close>: the arithmetic of the functions below adds or
  subtracts one separation to a placement coordinate, far inside the 32-bit range of any
  real design.  Areas, capacitances, delays and slacks are C++ \<open>float\<close>/\<open>double\<close>; they are
  modelled as \<open>real\<close>, so rounding is abstracted away.
\<close>

record point =
  px :: int
  py :: int

record rect =
  xMin :: int
  yMin :: int
  xMax :: int
  yMax :: int

text \<open>
  Modelled from the spec: \<open>ord::closestPtInRect\<close> is declared in
  \<open>openroad/OpenRoad.hh\<close>; its body is not among the sources.  Section 4.1 of the
  design: ``\<open>closestPointInRect(R, p)\<close> clamps each coordinate into \<open>[R.min, R.max]\<close>''.
\<close>

definition clamp :: "int \<Rightarrow> int \<Rightarrow> int \<Rightarrow> int" where
  "clamp lo hi v = min (max v lo) hi"

definition closestPtInRect :: "rect \<Rightarrow> int \<Rightarrow> int \<Rightarrow> point" where
  "closestPtInRect r x y =
     \<lparr> px = clamp (xMin r) (xMax r) x, py = clamp (yMin r) (yMax r) y \<rparr>"

section \<open>The netlist\<close>

text \<open>
  A pin is a top-level port of the block or a port of an instance.  Nets and instances are
  identified by their names, as \<open>findNet\<close> and \<open>findInstance\<close> look them up.
\<close>

datatype pin = TopPort string | InstPin string string

fun isTopLevelPort :: "pin \<Rightarrow> bool" where
  "isTopLevelPort (TopPort p) = True"
| "isTopLevelPort (InstPin i p) = False"

fun instance_of :: "pin \<Rightarrow> string option" where
  "instance_of (TopPort p) = None"
| "instance_of (InstPin i p) = Some i"

datatype direction = Input | Output | Tristate | Bidirect

record top_port =
  port_name :: string
  port_direction :: direction
  port_location :: point

text \<open>
  The state of the NETLIST service: the nets of the top scope with their \<open>isSpecial\<close>
  flag, the instances with the name of their cell, the net of every connected pin, the
  placement of the instances, and the top-level ports.  A pin that
  has no entry in \<open>conn\<close> has no net (\<open>network->net(pin)\<close> is \<open>nullptr\<close>).
\<close>

record netlist =
  nets :: "(string \<times> bool) list"
  insts :: "(string \<times> string) list"
  conn :: "(pin \<times> string) list"
  placement :: "(string \<times> point) list"
  ports :: "top_port list"

text \<open>
  Modelled from the spec: the edit and query operations of the NETLIST service
  (\<open>dbNetwork\<close>, \<open>dbSta\<close> and OpenDB) are called by the resizer but their bodies are not
  among the sources.  Section 6 of the design lists them (\<open>makeInstance\<close>, \<open>makeNet\<close>,
  \<open>connectPin\<close>, \<open>disconnectPin\<close>, \<open>deleteInstance\<close>, \<open>deleteNet\<close>, \<open>setLocation\<close>,
  \<open>net\<close>, pin iteration by net, \<open>findInstance\<close>/\<open>findNet\<close> by name, \<open>isSpecial\<close>), and
  section 9 says that a deletion unlinks the deleted entry from the adjacency sets.
  A pin has at most one net; connecting a pin replaces its net; deleting a net disconnects
  its pins; deleting an instance disconnects the pins of the instance; \<open>makeInstance\<close>
  returns no instance when the name is taken (the caller tests the result).  An iteration
  over the pins of a net visits the pins the net has when the iteration starts.
\<close>

definition findNet :: "netlist \<Rightarrow> string \<Rightarrow> bool" where
  "findNet d name = (name \<in> fst ` set (nets d))"

definition findInstance :: "netlist \<Rightarrow> string \<Rightarrow> bool" where
  "findInstance d name = (name \<in> fst ` set (insts d))"

definition net :: "netlist \<Rightarrow> pin \<Rightarrow> string option" where
  "net d p = map_of (conn d) p"

definition pinIterator :: "netlist \<Rightarrow> string \<Rightarrow> pin list" where
  "pinIterator d n = map fst (filter (\<lambda>(p, m). m = n) (conn d))"

definition makeNet :: "string \<Rightarrow> netlist \<Rightarrow> netlist" where
  "makeNet name d = d\<lparr> nets := nets d @ [(name, False)] \<rparr>"

definition makeInstance :: "string \<Rightarrow> string \<Rightarrow> netlist \<Rightarrow> netlist option" where
  "makeInstance cell name d =
     (if findInstance d name then None
      else Some (d\<lparr> insts := insts d @ [(name, cell)] \<rparr>))"

definition connectPin :: "pin \<Rightarrow> string \<Rightarrow> netlist \<Rightarrow> netlist" where
  "connectPin p n d = d\<lparr> conn := AList.update p n (conn d) \<rparr>"

definition disconnectPin :: "pin \<Rightarrow> netlist \<Rightarrow> netlist" where
  "disconnectPin p d = d\<lparr> conn := AList.delete p (conn d) \<rparr>"

definition deleteNet :: "string \<Rightarrow> netlist \<Rightarrow> netlist" where
  "deleteNet n d =
     d\<lparr> nets := AList.delete n (nets d),
        conn := filter (\<lambda>(p, m). m \<noteq> n) (conn d) \<rparr>"

definition deleteInstance :: "string \<Rightarrow> netlist \<Rightarrow> netlist" where
  "deleteInstance i d =
     d\<lparr> insts := AList.delete i (insts d),
        conn := filter (\<lambda>(p, m). instance_of p \<noteq> Some i) (conn d),
        placement := AList.delete i (placement d) \<rparr>"

definition setLocation :: "string \<Rightarrow> point \<Rightarrow> netlist \<Rightarrow> netlist" where
  "setLocation i pt d = d\<lparr> placement := AList.update i pt (placement d) \<rparr>"

text \<open>
  \<open>Resizer::isSpecial\<close> reads the flag of the net's database object; the net it is given
  must exist (a null net is dereferenced), so the result is \<open>None\<close> for no net.
\<close>

definition isSpecial :: "netlist \<Rightarrow> string option \<Rightarrow> bool option" where
  "isSpecial d n = (case n of None \<Rightarrow> None | Some m \<Rightarrow> map_of (nets d) m)"

text \<open>\<open>Resizer::hasTopLevelPort\<close>: the loop over the connected pins of the net.\<close>

fun has_top_level_port_loop :: "pin list \<Rightarrow> bool \<Rightarrow> bool" where
  "has_top_level_port_loop [] has_top_level_port = has_top_level_port"
| "has_top_level_port_loop (p # ps) has_top_level_port =
     (if isTopLevelPort p then True
      else has_top_level_port_loop ps has_top_level_port)"

definition hasTopLevelPort :: "netlist \<Rightarrow> string \<Rightarrow> bool" where
  "hasTopLevelPort d n = has_top_level_port_loop (pinIterator d n) False"

text \<open>
  Two properties of a netlist that the statements below assume.  In \<open>wf_conn\<close> a pin has
  one entry in \<open>conn\<close> at most, so that the pins \<open>pinIterator\<close> visits are distinct; in
  \<open>wf_netlist\<close>, moreover, the net of a connected pin is a net of the netlist.
\<close>

definition wf_conn :: "netlist \<Rightarrow> bool" where
  "wf_conn d = distinct (map fst (conn d))"


section \<open>Floating-point values\<close>

text \<open>
  A C++ \<open>float\<close> is a finite number, an infinity or a NaN.  A division by zero gives
  an infinity or a NaN, so the special values are part of the model; rounding, overflow and
  the sign of zero are not.  A comparison with a NaN is false; \<open>std::min(a, b)\<close> is
  \<open>b\<close> when \<open>b < a\<close> and \<open>a\<close> otherwise.

  \<open>INF\<close>, the initial value of two running minima of the resizer, is a constant of the
  timer's library and is not among the sources: the functions that read it take its value
  as the parameter \<open>sta_INF\<close>.
\<close>

datatype float = Finite real | PosInf | NegInf | NaN

fun fless :: "float \<Rightarrow> float \<Rightarrow> bool" where
  "fless (Finite a) (Finite b) = (a < b)"
| "fless (Finite a) PosInf = True"
| "fless NegInf (Finite b) = True"
| "fless NegInf PosInf = True"
| "fless a b = False"

definition fmin :: "float \<Rightarrow> float \<Rightarrow> float" where
  "fmin a b = (if fless b a then b else a)"

fun fdivide :: "float \<Rightarrow> float \<Rightarrow> float" where
  "fdivide (Finite a) (Finite b) =
     (if b \<noteq> 0 then Finite (a / b)
      else if 0 < a then PosInf else if a < 0 then NegInf else NaN)"
| "fdivide (Finite a) PosInf = Finite 0"
| "fdivide (Finite a) NegInf = Finite 0"
| "fdivide PosInf (Finite b) = (if 0 \<le> b then PosInf else NegInf)"
| "fdivide NegInf (Finite b) = (if 0 \<le> b then NegInf else PosInf)"
| "fdivide a b = NaN"

fun fmult :: "float \<Rightarrow> float \<Rightarrow> float" where
  "fmult (Finite a) (Finite b) = Finite (a * b)"
| "fmult (Finite a) PosInf = (if 0 < a then PosInf else if a < 0 then NegInf else NaN)"
| "fmult (Finite a) NegInf = (if 0 < a then NegInf else if a < 0 then PosInf else NaN)"
| "fmult PosInf (Finite b) = (if 0 < b then PosInf else if b < 0 then NegInf else NaN)"
| "fmult NegInf (Finite b) = (if 0 < b then NegInf else if b < 0 then PosInf else NaN)"
| "fmult PosInf PosInf = PosInf"
| "fmult NegInf NegInf = PosInf"
| "fmult PosInf NegInf = NegInf"
| "fmult NegInf PosInf = NegInf"
| "fmult a b = NaN"

text \<open>The conversion of \<open>std::ceil(x)\<close> to \<open>int\<close>; it is undefined when \<open>x\<close> is not finite.\<close>

fun ceil_to_int :: "float \<Rightarrow> int option" where
  "ceil_to_int (Finite a) = Some \<lceil>a\<rceil>"
| "ceil_to_int a = None"

section \<open>Library cells\<close>

text \<open>
  A timing arc runs from one transition to another and may have a gate timing model
  (\<open>dynamic_cast<GateTimingModel*>(arc->model())\<close> is null when it has none).  Of the
  model, \<open>findTargetLoad\<close> reads the output slew \<open>gateDelay\<close> computes for an input slew
  and a load capacitance.  Of the role of an arc set it asks whether it is a timing check
  or one of the two tristate roles; every other role is \<open>DelayRole\<close> here.
\<close>

datatype rise_fall = Rise | Fall

datatype timing_role = TimingCheck | TristateDisable | TristateEnable | DelayRole

record timing_arc =
  fromTrans :: rise_fall
  toTrans :: rise_fall
  arc_model :: "(real \<Rightarrow> real \<Rightarrow> real) option"

record timing_arc_set =
  role :: timing_role
  arcs :: "timing_arc list"

text \<open>
  What the resizer reads of a Liberty cell and of its LEF master: the name, the
  \<open>isBuffer\<close> and \<open>isInverter\<close> predicates, the two ports \<open>bufferPorts\<close> returns,
  the \<open>dontUse\<close> attribute, the area of the master (\<open>Resizer::area\<close>), and the timing
  arc sets.  Cells are compared by name where the code compares pointers.
\<close>

record liberty_cell =
  cell_name :: string
  isBuffer :: bool
  isInverter :: bool
  buffer_input :: string
  buffer_output :: string
  cell_dont_use :: bool
  cell_area :: real
  timingArcSets :: "timing_arc_set list"

section \<open>The resizer\<close>

text \<open>
  The fields of \<open>class Resizer\<close> that the functions below read or write, with the
  netlist they edit, the messages of \<open>ord::warn\<close> and the lines printed on standard
  output.  The two name counters and the two edit counters are C++ \<open>int\<close>; the set
  \<open>dont_use_\<close> and the map \<open>target_load_map_\<close> are keyed by the name of the cell.
\<close>

record resizer =
  db :: netlist
  core :: rect
  core_exists :: bool
  wire_res :: real
  wire_cap :: real
  wire_clk_res :: real
  wire_clk_cap :: real
  max_area :: real
  design_area :: real
  have_estimated_parasitics :: bool
  level_drvr_verticies_valid :: bool
  unique_net_index :: int
  unique_inst_index :: int
  inserted_buffer_count :: int
  resize_count :: int
  resized_multi_output_insts :: "string list"
  dont_use :: "string list"
  target_load_map :: "(string \<times> float) list"
  warnings :: "string list"
  printed :: "string list"

text \<open>The constructor \<open>Resizer::Resizer()\<close>, on a given netlist.\<close>

definition Resizer :: "netlist \<Rightarrow> resizer" where
  "Resizer d =
     \<lparr> db = d,
       core = \<lparr> xMin = 0, yMin = 0, xMax = 0, yMax = 0 \<rparr>,
       core_exists = False,
       wire_res = 0, wire_cap = 0, wire_clk_res = 0, wire_clk_cap = 0,
       max_area = 0,
       design_area = 0,
       have_estimated_parasitics = False,
       level_drvr_verticies_valid = False,
       unique_net_index = 1,
       unique_inst_index = 1,
       inserted_buffer_count = 0,
       resize_count = 0,
       resized_multi_output_insts = [],
       dont_use = [],
       target_load_map = [],
       warnings = [],
       printed = [] \<rparr>"

definition warn :: "string \<Rightarrow> resizer \<Rightarrow> resizer" where
  "warn msg s = s\<lparr> warnings := warnings s @ [msg] \<rparr>"

definition printf :: "string \<Rightarrow> resizer \<Rightarrow> resizer" where
  "printf line s = s\<lparr> printed := printed s @ [line] \<rparr>"

section \<open>Name generator\<close>

text \<open>The conversion \<open>%d\<close> of \<open>stringPrint\<close>: a decimal numeral, with a sign when negative.\<close>

definition digit_char :: "nat \<Rightarrow> char" where
  "digit_char d = ''0123456789'' ! d"

fun string_of_nat :: "nat \<Rightarrow> string" where
  "string_of_nat n =
     (if n < 10 then [digit_char n]
      else string_of_nat (n div 10) @ [digit_char (n mod 10)])"

definition string_of_int :: "int \<Rightarrow> string" where
  "string_of_int i =
     (if i < 0 then CHR ''-'' # string_of_nat (nat (- i)) else string_of_nat (nat i))"

definition INT_MAX :: int where
  "INT_MAX = 2147483647"

text \<open>
  The \<open>do ... while\<close> loop of both generators: print the counter, increment it, and repeat
  while the netlist knows the name.  Incrementing a counter that holds \<open>INT_MAX\<close> is a
  signed overflow, which C++ leaves undefined: the model stops there with \<open>None\<close>.
\<close>

function unique_name_loop ::
  "(int \<Rightarrow> string) \<Rightarrow> (string \<Rightarrow> bool) \<Rightarrow> int \<Rightarrow> (string \<times> int) option" where
  "unique_name_loop fmt found idx =
     (if INT_MAX \<le> idx then None
      else if found (fmt idx) then unique_name_loop fmt found (idx + 1)
      else Some (fmt idx, idx + 1))"
  by pat_completeness auto
termination
  by (relation "measure (\<lambda>(fmt, found, idx). nat (INT_MAX - idx))") auto

definition net_name_fmt :: "int \<Rightarrow> string" where
  "net_name_fmt n = ''net'' @ string_of_int n"

definition inst_name_fmt :: "string \<Rightarrow> bool \<Rightarrow> int \<Rightarrow> string" where
  "inst_name_fmt base_name underscore n =
     (if underscore then base_name @ ''_'' @ string_of_int n
      else base_name @ string_of_int n)"

definition makeUniqueNetName :: "resizer \<Rightarrow> (string \<times> resizer) option" where
  "makeUniqueNetName s =
     (case unique_name_loop net_name_fmt (findNet (db s)) (unique_net_index s) of
        None \<Rightarrow> None
      | Some (node_name, idx) \<Rightarrow> Some (node_name, s\<lparr> unique_net_index := idx \<rparr>))"

definition makeUniqueInstName :: "string \<Rightarrow> bool \<Rightarrow> resizer \<Rightarrow> (string \<times> resizer) option" where
  "makeUniqueInstName base_name underscore s =
     (case unique_name_loop (inst_name_fmt base_name underscore) (findInstance (db s))
             (unique_inst_index s) of
        None \<Rightarrow> None
      | Some (inst_name, idx) \<Rightarrow> Some (inst_name, s\<lparr> unique_inst_index := idx \<rparr>))"

section \<open>Port buffer inserter: \<open>Resizer::bufferInputs\<close>\<close>

text \<open>
  The loop of \<open>bufferInput\<close> over the pins of the port's net: every pin but the port
  itself is disconnected and connected to the buffer's output net.
\<close>

definition move_pin :: "pin \<Rightarrow> string \<Rightarrow> netlist \<Rightarrow> netlist" where
  "move_pin p n d = connectPin p n (disconnectPin p d)"

fun rewire_except :: "pin \<Rightarrow> string \<Rightarrow> pin list \<Rightarrow> netlist \<Rightarrow> netlist" where
  "rewire_except keep n [] d = d"
| "rewire_except keep n (p # ps) d =
     rewire_except keep n ps (if p \<noteq> keep then move_pin p n d else d)"






section \<open>Buffer removal: \<open>Resizer::removeBuffers\<close>\<close>

text \<open>
  \<open>libertyCell\<close> is the library: the Liberty cell of a cell name, if it has one.  The
  body of the loop over the instances, for one instance: \<open>hasTopLevelPort\<close> iterates over
  the pins of the net it is given, so an unconnected input or output pin of a buffer is a
  null dereference (\<open>None\<close>).  The second test is evaluated only when the first holds.
\<close>

definition removeBuffer ::
  "(string \<Rightarrow> liberty_cell option) \<Rightarrow> string \<Rightarrow> netlist \<times> int \<Rightarrow> (netlist \<times> int) option" where
  "removeBuffer libertyCell inst st =
     (let d = fst st; remove_count = snd st in
      case Option.bind (map_of (insts d) inst) libertyCell of
        None \<Rightarrow> Some (d, remove_count)
      | Some lib_cell \<Rightarrow>
          if isBuffer lib_cell then
            (let input_pin = InstPin inst (buffer_input lib_cell);
                 output_pin = InstPin inst (buffer_output lib_cell) in
             case net d input_pin of
               None \<Rightarrow> None
             | Some input_net \<Rightarrow>
                 if \<not> hasTopLevelPort d input_net then
                   (case net d output_pin of
                      None \<Rightarrow> None
                    | Some output_net \<Rightarrow>
                        if \<not> hasTopLevelPort d output_net then
                          (let d = rewire_except output_pin input_net
                                     (pinIterator d output_net) d;
                               d = deleteNet output_net d;
                               d = deleteInstance inst d
                           in Some (d, remove_count + 1))
                        else Some (d, remove_count))
                 else Some (d, remove_count))
          else Some (d, remove_count))"

fun removeBuffers_loop ::
  "(string \<Rightarrow> liberty_cell option) \<Rightarrow> string list \<Rightarrow> netlist \<times> int \<Rightarrow> (netlist \<times> int) option" where
  "removeBuffers_loop libertyCell [] st = Some st"
| "removeBuffers_loop libertyCell (inst # is) st =
     (case removeBuffer libertyCell inst st of
        None \<Rightarrow> None
      | Some st \<Rightarrow> removeBuffers_loop libertyCell is st)"

definition removeBuffers :: "(string \<Rightarrow> liberty_cell option) \<Rightarrow> resizer \<Rightarrow> resizer option" where
  "removeBuffers libertyCell s =
     (case removeBuffers_loop libertyCell (map fst (insts (db s))) (db s, 0) of
        None \<Rightarrow> None
      | Some (d, remove_count) \<Rightarrow>
          Some (printf (''Removed '' @ string_of_int remove_count @ '' buffers.'')
                  (s\<lparr> db := d \<rparr>)))"

section \<open>Area budget\<close>

definition dbuToMeters :: "int \<Rightarrow> int \<Rightarrow> real" where
  "dbuToMeters dbu dist_dbu = real_of_int dist_dbu / (real_of_int dbu * 1000000)"

definition coreArea :: "int \<Rightarrow> resizer \<Rightarrow> real" where
  "coreArea dbu s =
     dbuToMeters dbu (xMax (core s) - xMin (core s))
       * dbuToMeters dbu (yMax (core s) - yMin (core s))"

definition setMaxUtilization :: "int \<Rightarrow> real \<Rightarrow> resizer \<Rightarrow> resizer" where
  "setMaxUtilization dbu max_utilization s =
     s\<lparr> max_area := coreArea dbu s * max_utilization \<rparr>"

text \<open>
  \<open>sta::fuzzyGreaterEqual\<close> (\<open>sta/Fuzzy.hh\<close>) belongs to the timer's library and is not
  among the sources: \<open>overMaxArea\<close> takes it as a parameter.
  Modelled from the spec: \<open>fuzzy_ge\<close> is the comparison as the glossary describes it, a
  comparison ``with a small absolute tolerance'', for the examples that need one.
\<close>

definition overMaxArea :: "(real \<Rightarrow> real \<Rightarrow> bool) \<Rightarrow> resizer \<Rightarrow> bool" where
  "overMaxArea fuzzyGreaterEqual s =
     (max_area s \<noteq> 0 \<and> fuzzyGreaterEqual (design_area s) (max_area s))"

definition fuzzy_ge :: "real \<Rightarrow> real \<Rightarrow> real \<Rightarrow> bool" where
  "fuzzy_ge tolerance v1 v2 = (v2 < v1 \<or> \<bar>v1 - v2\<bar> < tolerance)"

section \<open>Target-load model: \<open>Resizer::findTargetLoad\<close>\<close>















text \<open>\<open>targetLoadCap\<close>: the entry of the cell, and 0 when it has none.\<close>

definition targetLoadCap :: "resizer \<Rightarrow> liberty_cell \<Rightarrow> float" where
  "targetLoadCap s cell =
     (case map_of (target_load_map s) (cell_name cell) of
        None \<Rightarrow> Finite 0
      | Some load_cap \<Rightarrow> load_cap)"





section \<open>Gate sizer: \<open>Resizer::resizeToTargetSlew\<close>\<close>

text \<open>
  The queries of the sizer to the TIMER and the NETLIST: the Liberty cell of a cell name,
  the equivalent cells of a cell, the load capacitance of a driver pin in the current
  netlist, \<open>bufferDelay\<close>, whether a pin is in the clock network, the direction of a pin,
  and the area of the LEF master of a cell name (\<open>db_->findMaster\<close> finds none for
  \<open>None\<close>).
\<close>

record timer =
  libertyCell :: "string \<Rightarrow> liberty_cell option"
  equivCells :: "liberty_cell \<Rightarrow> liberty_cell list option"
  loadCap :: "netlist \<Rightarrow> pin \<Rightarrow> real"
  bufferDelay :: "liberty_cell \<Rightarrow> real \<Rightarrow> real"
  isClock :: "pin \<Rightarrow> bool"
  pin_direction :: "pin \<Rightarrow> direction"
  master_area :: "string \<Rightarrow> real option"

definition dontUse :: "resizer \<Rightarrow> liberty_cell \<Rightarrow> bool" where
  "dontUse s cell = (cell_dont_use cell \<or> cell_name cell \<in> set (dont_use s))"

definition isAnyOutput :: "direction \<Rightarrow> bool" where
  "isAnyOutput dir = (dir = Output \<or> dir = Tristate)"

text \<open>
  \<open>hasMultipleOutputs\<close> counts the pins of the instance that are outputs and have a net,
  and answers at the second one.
\<close>

fun output_count_loop :: "timer \<Rightarrow> string \<Rightarrow> pin list \<Rightarrow> nat \<Rightarrow> bool" where
  "output_count_loop t inst [] output_count = False"
| "output_count_loop t inst (p # ps) output_count =
     (if instance_of p = Some inst \<and> isAnyOutput (pin_direction t p) then
        (if 1 < output_count + 1 then True
         else output_count_loop t inst ps (output_count + 1))
      else output_count_loop t inst ps output_count)"

definition hasMultipleOutputs :: "timer \<Rightarrow> netlist \<Rightarrow> string \<Rightarrow> bool" where
  "hasMultipleOutputs t d inst = output_count_loop t inst (map fst (conn d)) 0"


text \<open>
  \<open>(*target_load_map_)[cell]\<close>: the entry of the cell, 0 for a cell without one.  (The
  C++ map also stores that 0; no function here can tell the difference, and the model
  leaves the map as it is.)
\<close>

definition target_load_of :: "resizer \<Rightarrow> liberty_cell \<Rightarrow> float" where
  "target_load_of s cell =
     (case map_of (target_load_map s) (cell_name cell) of
        None \<Rightarrow> Finite 0
      | Some target_load \<Rightarrow> target_load)"

record best =
  best_cell :: liberty_cell
  best_ratio :: float
  best_load :: float
  best_delay :: real

text \<open>
  The condition of the \<open>if\<close> in the loop over the equivalent cells.  In C++ the
  conditional operator binds weaker than \<open>&&\<close>: the expression
  \<open>is_buf_inv ? (...) : ratio > best_ratio && (!revisiting_inst || target_load > best_load)\<close>
  has the multiple-output test in its third operand only.
\<close>

definition replaces_best ::
  "bool \<Rightarrow> bool \<Rightarrow> float \<Rightarrow> real \<Rightarrow> float \<Rightarrow> best \<Rightarrow> bool" where
  "replaces_best is_buf_inv revisiting_inst target_load delay ratio b =
     (if is_buf_inv
      then ((delay < best_delay b \<and> fless (fmult (best_ratio b) (Finite (9 / 10))) ratio)
            \<or> (fless (best_ratio b) ratio \<and> delay < best_delay b * (11 / 10)))
      else (fless (best_ratio b) ratio
            \<and> (\<not> revisiting_inst \<or> fless (best_load b) target_load)))"

definition try_equiv_cell ::
  "timer \<Rightarrow> resizer \<Rightarrow> bool \<Rightarrow> bool \<Rightarrow> real \<Rightarrow> liberty_cell \<Rightarrow> best \<Rightarrow> best" where
  "try_equiv_cell t s is_buf_inv revisiting_inst load_cap target_cell b =
     (if \<not> dontUse s target_cell then
        (let target_load = target_load_of s target_cell;
             delay = (if is_buf_inv then bufferDelay t target_cell load_cap else 0);
             ratio = fdivide target_load (Finite load_cap);
             ratio = (if fless (Finite 1) ratio then fdivide (Finite 1) ratio else ratio)
         in if replaces_best is_buf_inv revisiting_inst target_load delay ratio b
            then \<lparr> best_cell = target_cell, best_ratio = ratio,
                   best_load = target_load, best_delay = delay \<rparr>
            else b)
      else b)"

fun equiv_cell_loop ::
  "timer \<Rightarrow> resizer \<Rightarrow> bool \<Rightarrow> bool \<Rightarrow> real \<Rightarrow> liberty_cell list \<Rightarrow> best \<Rightarrow> best" where
  "equiv_cell_loop t s is_buf_inv revisiting_inst load_cap [] b = b"
| "equiv_cell_loop t s is_buf_inv revisiting_inst load_cap (target_cell # rest) b =
     equiv_cell_loop t s is_buf_inv revisiting_inst load_cap rest
       (try_equiv_cell t s is_buf_inv revisiting_inst load_cap target_cell b)"

definition initial_best :: "timer \<Rightarrow> resizer \<Rightarrow> bool \<Rightarrow> real \<Rightarrow> liberty_cell \<Rightarrow> best" where
  "initial_best t s is_buf_inv load_cap cell =
     (let target_load = target_load_of s cell in
      \<lparr> best_cell = cell,
        best_ratio = (if fless target_load (Finite load_cap)
                      then fdivide target_load (Finite load_cap)
                      else fdivide (Finite load_cap) target_load),
        best_load = target_load,
        best_delay = (if is_buf_inv then bufferDelay t cell load_cap else 0) \<rparr>)"

text \<open>
  The replacement of the cell of an instance by the best cell: the database looks the
  master up by the name of the cell, and the design area loses the area of the old master
  and gains the area of the new one.  (The deletion of the estimated parasitics of the
  nets of the instance changes the TIMER only.)
\<close>

definition replaceCell :: "string \<Rightarrow> string \<Rightarrow> netlist \<Rightarrow> netlist" where
  "replaceCell inst cell d = d\<lparr> insts := AList.update inst cell (insts d) \<rparr>"

definition area_of :: "timer \<Rightarrow> string \<Rightarrow> real" where
  "area_of t cell = (case master_area t cell of None \<Rightarrow> 0 | Some a \<Rightarrow> a)"

definition swap_cell ::
  "timer \<Rightarrow> string \<Rightarrow> liberty_cell \<Rightarrow> liberty_cell \<Rightarrow> bool \<Rightarrow> resizer \<Rightarrow> resizer" where
  "swap_cell t inst cell best_cell1 revisiting_inst s =
     (case master_area t (cell_name best_cell1) of
        None \<Rightarrow> s
      | Some best_area \<Rightarrow>
          (let s = s\<lparr> design_area := design_area s - area_of t (cell_name cell) \<rparr>;
               s = s\<lparr> db := replaceCell inst (cell_name best_cell1) (db s) \<rparr>;
               s = (if \<not> revisiting_inst then s\<lparr> resize_count := resize_count s + 1 \<rparr>
                    else s)
           in s\<lparr> design_area := design_area s + best_area \<rparr>))"

definition resizeToTargetSlew_pin :: "timer \<Rightarrow> pin \<Rightarrow> resizer \<Rightarrow> resizer" where
  "resizeToTargetSlew_pin t drvr_pin s =
     (case instance_of drvr_pin of
        None \<Rightarrow> s
      | Some inst \<Rightarrow>
     (case Option.bind (map_of (insts (db s)) inst) (libertyCell t) of
        None \<Rightarrow> s
      | Some cell \<Rightarrow>
     (case equivCells t cell of
        None \<Rightarrow> s
      | Some equiv_cells \<Rightarrow>
          (let multiple = hasMultipleOutputs t (db s) inst;
               revisiting_inst = (multiple \<and> inst \<in> set (resized_multi_output_insts s));
               s = (if multiple
                    then s\<lparr> resized_multi_output_insts :=
                              List.insert inst (resized_multi_output_insts s) \<rparr>
                    else s);
               is_buf_inv = (isBuffer cell \<or> isInverter cell);
               load_cap = loadCap t (db s) drvr_pin
           in if 0 < load_cap then
                (let b = equiv_cell_loop t s is_buf_inv revisiting_inst load_cap equiv_cells
                           (initial_best t s is_buf_inv load_cap cell)
                 in if cell_name (best_cell b) \<noteq> cell_name cell
                    then swap_cell t inst cell (best_cell b) revisiting_inst s
                    else s)
              else s))))"

text \<open>
  A driver vertex of the timing graph: its pin, \<open>isConstant\<close>, and whether it has an
  out-edge (\<open>hasFanout\<close>).
\<close>

record vertex =
  vertex_pin :: pin
  isConstant :: bool
  hasFanout :: bool

definition resizable :: "timer \<Rightarrow> resizer \<Rightarrow> vertex \<Rightarrow> bool" where
  "resizable t s drvr =
     (net (db s) (vertex_pin drvr) \<noteq> None
      \<and> \<not> isConstant drvr
      \<and> hasFanout drvr
      \<and> \<not> isClock t (vertex_pin drvr)
      \<and> isSpecial (db s) (net (db s) (vertex_pin drvr)) = Some False)"

text \<open>
  The loop of \<open>resizeToTargetSlew()\<close>, over the drivers in the order it visits them (the
  reverse of \<open>level_drvr_verticies_\<close>).
\<close>

fun resize_loop ::
  "timer \<Rightarrow> (real \<Rightarrow> real \<Rightarrow> bool) \<Rightarrow> vertex list \<Rightarrow> resizer \<Rightarrow> resizer" where
  "resize_loop t fuzzyGreaterEqual [] s = s"
| "resize_loop t fuzzyGreaterEqual (drvr # rest) s =
     (if resizable t s drvr then
        (let s = resizeToTargetSlew_pin t (vertex_pin drvr) s in
         if overMaxArea fuzzyGreaterEqual s then warn ''Max utilization reached.'' s
         else resize_loop t fuzzyGreaterEqual rest s)
      else resize_loop t fuzzyGreaterEqual rest s)"

definition resizeToTargetSlew ::
  "timer \<Rightarrow> (real \<Rightarrow> real \<Rightarrow> bool) \<Rightarrow> vertex list \<Rightarrow> resizer \<Rightarrow> resizer" where
  "resizeToTargetSlew t fuzzyGreaterEqual level_drvr_verticies s =
     (let s = s\<lparr> resize_count := 0, resized_multi_output_insts := [] \<rparr>;
          s = resize_loop t fuzzyGreaterEqual (rev level_drvr_verticies) s
      in printf (''Resized '' @ string_of_int (resize_count s) @ '' instances.'') s)"

text \<open>
  For comparison with the loop: the edits of a sequence of drivers, with no test of the
  area between them.
\<close>

fun resize_edits :: "timer \<Rightarrow> vertex list \<Rightarrow> resizer \<Rightarrow> resizer" where
  "resize_edits t [] s = s"
| "resize_edits t (drvr # rest) s =
     resize_edits t rest
       (if resizable t s drvr then resizeToTargetSlew_pin t (vertex_pin drvr) s else s)"



section \<open>Parasitic estimator: \<open>Resizer::estimateWireParasitic\<close>\<close>

text \<open>
  A branch of the Steiner tree as \<open>tree->branch\<close> returns it (the two end points are
  not read by the estimator), and of the tree the alias of a Steiner point that lies on
  a pin.  The parasitic network is the sequence of the calls that build it.
\<close>

record branch =
  pin1 :: "pin option"
  steiner_pt1 :: int
  pin2 :: "pin option"
  steiner_pt2 :: int
  wire_length_dbu :: int

record steiner_tree =
  branches :: "branch list"
  steinerPtAlias :: "int \<Rightarrow> pin option"

datatype parasitic_node = PinNode pin | SteinerNode string int

datatype parasitic_call =
  IncrCap parasitic_node real
| MakeResistor parasitic_node parasitic_node real

definition findParasiticNode ::
  "steiner_tree \<Rightarrow> string \<Rightarrow> pin option \<Rightarrow> int \<Rightarrow> parasitic_node" where
  "findParasiticNode tree n pin steiner_pt =
     (let pin = (if pin = None then steinerPtAlias tree steiner_pt else pin) in
      case pin of
        Some p \<Rightarrow> PinNode p
      | None \<Rightarrow> SteinerNode n steiner_pt)"

definition branch_parasitics ::
  "int \<Rightarrow> resizer \<Rightarrow> steiner_tree \<Rightarrow> string \<Rightarrow> bool \<Rightarrow> branch \<Rightarrow> parasitic_call list" where
  "branch_parasitics dbu s tree n is_clk b =
     (let n1 = findParasiticNode tree n (pin1 b) (steiner_pt1 b);
          n2 = findParasiticNode tree n (pin2 b) (steiner_pt2 b)
      in if n1 \<noteq> n2 then
           (if wire_length_dbu b = 0 then [MakeResistor n1 n2 (1 / 1000)]
            else
              (let wire_length = dbuToMeters dbu (wire_length_dbu b);
                   wire_cap = wire_length * (if is_clk then wire_clk_cap s else wire_cap s);
                   wire_res = wire_length * (if is_clk then wire_clk_res s else wire_res s)
               in [IncrCap n1 (wire_cap / 2), MakeResistor n1 n2 wire_res,
                   IncrCap n2 (wire_cap / 2)]))
         else [])"

text \<open>
  \<open>estimateWireParasitic(net)\<close>: \<open>isClockNet\<close> is the TIMER's \<open>sta_->isClock(net)\<close> and
  \<open>makeSteinerTree\<close> the STEINER service (no tree for \<open>None\<close>).  The result is the
  parasitic network that is then reduced.
\<close>

definition estimateWireParasitic ::
  "int \<Rightarrow> (string \<Rightarrow> bool) \<Rightarrow> (string \<Rightarrow> steiner_tree option) \<Rightarrow> resizer \<Rightarrow> string
     \<Rightarrow> parasitic_call list" where
  "estimateWireParasitic dbu isClockNet makeSteinerTree s n =
     (if \<not> hasTopLevelPort (db s) n then
        (case makeSteinerTree n of
           Some tree \<Rightarrow>
             (let is_clk = \<not> isClockNet n in
              concat (map (branch_parasitics dbu s tree n is_clk) (branches tree)))
         | None \<Rightarrow> [])
      else [])"

section \<open>Hold repairer: \<open>Resizer::repairHoldPass\<close> and \<open>Resizer::makeHoldDelay\<close>\<close>

text \<open>The slacks of a vertex as \<open>sta_->vertexSlacks\<close> fills them: rise and fall, min and max.\<close>

record slacks =
  rise_min :: real
  rise_max :: real
  fall_min :: real
  fall_max :: real

definition holdSlack :: "slacks \<Rightarrow> real" where
  "holdSlack sl = min (rise_min sl) (fall_min sl)"

definition setupSlack :: "slacks \<Rightarrow> real" where
  "setupSlack sl = min (rise_max sl) (fall_max sl)"

definition slackGap :: "slacks \<Rightarrow> real" where
  "slackGap sl = min (rise_max sl - rise_min sl) (fall_max sl - fall_min sl)"

text \<open>
  The queries of the hold repairer, each on the current netlist: the hold slack of a
  driver vertex (\<open>sta_->vertexSlack(vertex, MinMax::min())\<close>), the pins and slacks of the
  vertices its out-edges lead to, and the location of a pin.
\<close>

record hold_timer =
  vertexSlack :: "netlist \<Rightarrow> pin \<Rightarrow> real"
  fanout_slacks :: "netlist \<Rightarrow> pin \<Rightarrow> (pin \<times> slacks) list"
  pin_location :: "netlist \<Rightarrow> pin \<Rightarrow> point"

text \<open>
  The loop of \<open>repairHoldPass\<close> over the out-edges of a fanin: \<open>buffer_delay\<close> is the
  local variable \<open>Slack buffer_delay = INF\<close> that the loop declares, and \<open>load_pins\<close> the
  loads to delay.
\<close>

fun hold_load_loop ::
  "bool \<Rightarrow> (pin \<times> slacks) list \<Rightarrow> float \<times> pin list \<Rightarrow> float \<times> pin list" where
  "hold_load_loop allow_setup_violations [] acc = acc"
| "hold_load_loop allow_setup_violations (fanout # rest) acc =
     (let buffer_delay = fst acc;
          load_pins = snd acc;
          hold_slack = holdSlack (snd fanout) in
      hold_load_loop allow_setup_violations rest
        (if hold_slack < 0 then
           (let delay = (if allow_setup_violations then - hold_slack
                         else min (- hold_slack) (setupSlack (snd fanout)))
            in if 0 < delay
               then (fmin buffer_delay (Finite delay), load_pins @ [fst fanout])
               else acc)
         else acc))"

text \<open>
  \<open>int buffer_count = std::ceil(buffer_delay / buffer_delay)\<close>: both operands are the
  local variable of the loop, which hides the parameter \<open>buffer_delay\<close> of
  \<open>repairHoldPass\<close> (the delay of the buffer cell).
\<close>

definition hold_buffer_count :: "float \<Rightarrow> int option" where
  "hold_buffer_count buffer_delay = ceil_to_int (fdivide buffer_delay buffer_delay)"

text \<open>
  C++ integer arithmetic of \<open>makeHoldDelay\<close> and \<open>findCenter\<close>: \<open>int / int\<close> truncates
  towards zero and is undefined for a zero divisor; in \<open>sum.x() / pins.size()\<close> the
  \<open>int\<close> is converted to the 64-bit unsigned type of the size, and the quotient back
  to \<open>int\<close>.
\<close>

definition cdiv :: "int \<Rightarrow> int \<Rightarrow> int option" where
  "cdiv a b = (if b = 0 then None else Some (sgn a * sgn b * (\<bar>a\<bar> div \<bar>b\<bar>)))"

definition to_int32 :: "int \<Rightarrow> int" where
  "to_int32 v = (v + 2 ^ 31) mod 2 ^ 32 - 2 ^ 31"

definition div_size :: "int \<Rightarrow> nat \<Rightarrow> int option" where
  "div_size a n = (if n = 0 then None else Some (to_int32 ((a mod 2 ^ 64) div int n)))"

definition findCenter :: "hold_timer \<Rightarrow> netlist \<Rightarrow> pin list \<Rightarrow> point option" where
  "findCenter t d pins =
     (let sum_x = sum_list (map (\<lambda>p. px (pin_location t d p)) pins);
          sum_y = sum_list (map (\<lambda>p. py (pin_location t d p)) pins)
      in case (div_size sum_x (length pins), div_size sum_y (length pins)) of
           (Some x, Some y) \<Rightarrow> Some \<lparr> px = x, py = y \<rparr>
         | _ \<Rightarrow> None)"

text \<open>
  The loop of \<open>makeHoldDelay\<close> that makes the buffers: \<open>i\<close> is the loop index and \<open>k\<close>
  the number of iterations left; the state is the resizer with \<open>in_net\<close> and \<open>out_net\<close>.
  The instance \<open>makeInstance\<close> returns is used without a test.
\<close>

fun hold_buffer_loop ::
  "liberty_cell \<Rightarrow> point \<Rightarrow> int \<Rightarrow> int \<Rightarrow> int \<Rightarrow> nat
     \<Rightarrow> resizer \<times> string \<times> string option \<Rightarrow> (resizer \<times> string \<times> string option) option" where
  "hold_buffer_loop buffer_cell drvr_loc dx dy i 0 st = Some st"
| "hold_buffer_loop buffer_cell drvr_loc dx dy i (Suc k) st =
     (let s = fst st; in_net = fst (snd st) in
      do {
        (out_net_name, s) \<leftarrow> makeUniqueNetName s;
        let s = s\<lparr> db := makeNet out_net_name (db s) \<rparr>;
        (buffer_name, s) \<leftarrow> makeUniqueInstName ''hold'' False s;
        d \<leftarrow> makeInstance (cell_name buffer_cell) buffer_name (db s);
        let s = s\<lparr> inserted_buffer_count := inserted_buffer_count s + 1 \<rparr>;
        let s = s\<lparr> design_area := design_area s + cell_area buffer_cell \<rparr>;
        let d = connectPin (InstPin buffer_name (buffer_input buffer_cell)) in_net d;
        let d = connectPin (InstPin buffer_name (buffer_output buffer_cell)) out_net_name d;
        let buffer_loc = \<lparr> px = px drvr_loc + dx * i, py = py drvr_loc + dy * i \<rparr>;
        let d = setLocation buffer_name buffer_loc d;
        hold_buffer_loop buffer_cell drvr_loc dx dy (i + 1) k
          (s\<lparr> db := d \<rparr>, out_net_name, Some out_net_name)
      })"

fun move_loads :: "pin list \<Rightarrow> string \<Rightarrow> netlist \<Rightarrow> netlist" where
  "move_loads [] out_net d = d"
| "move_loads (load_pin # rest) out_net d = move_loads rest out_net (move_pin load_pin out_net d)"

text \<open>
  \<open>makeHoldDelay\<close>.  The nets of the driver and of the last buffer are dereferenced, so
  a driver without a net, or loads to move when no buffer was made, end in \<open>None\<close>.  (The
  estimation of the parasitics of the two nets changes the TIMER only.)
\<close>

definition makeHoldDelay ::
  "hold_timer \<Rightarrow> pin \<Rightarrow> int \<Rightarrow> pin list \<Rightarrow> liberty_cell \<Rightarrow> resizer \<Rightarrow> resizer option" where
  "makeHoldDelay t drvr_pin buffer_count load_pins buffer_cell s =
     do {
       drvr_net \<leftarrow> net (db s) drvr_pin;
       let drvr_loc = pin_location t (db s) drvr_pin;
       load_center \<leftarrow> findCenter t (db s) load_pins;
       dx \<leftarrow> cdiv (px drvr_loc - px load_center) (buffer_count + 1);
       dy \<leftarrow> cdiv (py drvr_loc - py load_center) (buffer_count + 1);
       (s, in_net, out_net) \<leftarrow>
         hold_buffer_loop buffer_cell drvr_loc dx dy 0 (nat buffer_count) (s, drvr_net, None);
       (case out_net of
          None \<Rightarrow> (if load_pins = [] then Some s else None)
        | Some out_net \<Rightarrow> Some (s\<lparr> db := move_loads load_pins out_net (db s) \<rparr>))
     }"

definition max_repair_count :: "nat \<Rightarrow> int" where
  "max_repair_count failures = max \<lfloor>real failures * (2 / 10)\<rfloor> 10"

text \<open>
  The loop of \<open>repairHoldPass\<close> over the sorted fanins.  The parameter \<open>buffer_delay\<close> is
  the delay of the buffer cell; \<open>inner_buffer_delay\<close> is the local variable of the same
  name that hides it in the body of the loop.
\<close>

fun repair_hold_loop ::
  "float \<Rightarrow> hold_timer \<Rightarrow> (real \<Rightarrow> real \<Rightarrow> bool) \<Rightarrow> liberty_cell \<Rightarrow> real \<Rightarrow> bool \<Rightarrow> int
     \<Rightarrow> pin list \<Rightarrow> int \<Rightarrow> resizer \<Rightarrow> (int \<times> resizer) option" where
  "repair_hold_loop sta_INF t fuzzyGreaterEqual buffer_cell buffer_delay allow_setup_violations
       max_count [] repair_count s = Some (repair_count, s)"
| "repair_hold_loop sta_INF t fuzzyGreaterEqual buffer_cell buffer_delay allow_setup_violations
       max_count (drvr_pin # rest) repair_count s =
     (if repair_count < max_count then
        (let n = net (db s) drvr_pin;
             hold_slack = vertexSlack t (db s) drvr_pin in
         if hold_slack < 0 then
           (case isSpecial (db s) n of
              None \<Rightarrow> None
            | Some special \<Rightarrow>
                if \<not> special then
                  (let loads = hold_load_loop allow_setup_violations
                                 (fanout_slacks t (db s) drvr_pin) (sta_INF, []);
                       inner_buffer_delay = fst loads;
                       load_pins = snd loads
                   in if load_pins \<noteq> [] then
                        (case hold_buffer_count inner_buffer_delay of
                           None \<Rightarrow> None
                         | Some buffer_count \<Rightarrow>
                             (case makeHoldDelay t drvr_pin buffer_count load_pins
                                     buffer_cell s of
                                None \<Rightarrow> None
                              | Some s \<Rightarrow>
                                  if overMaxArea fuzzyGreaterEqual s
                                  then Some (repair_count + buffer_count,
                                             warn ''max utilization reached.'' s)
                                  else repair_hold_loop sta_INF t fuzzyGreaterEqual buffer_cell
                                         buffer_delay allow_setup_violations max_count rest
                                         (repair_count + buffer_count) s))
                      else repair_hold_loop sta_INF t fuzzyGreaterEqual buffer_cell buffer_delay
                             allow_setup_violations max_count rest repair_count s)
                else repair_hold_loop sta_INF t fuzzyGreaterEqual buffer_cell buffer_delay
                       allow_setup_violations max_count rest repair_count s)
         else repair_hold_loop sta_INF t fuzzyGreaterEqual buffer_cell buffer_delay
                allow_setup_violations max_count rest repair_count s)
      else Some (repair_count, s))"

text \<open>
  \<open>repairHoldPass\<close>, on the fanins as \<open>sortHoldFanins\<close> has ordered them and the number
  of failing endpoints.
\<close>

definition repairHoldPass ::
  "float \<Rightarrow> hold_timer \<Rightarrow> (real \<Rightarrow> real \<Rightarrow> bool) \<Rightarrow> nat \<Rightarrow> pin list \<Rightarrow> liberty_cell \<Rightarrow> real
     \<Rightarrow> bool \<Rightarrow> resizer \<Rightarrow> (int \<times> resizer) option" where
  "repairHoldPass sta_INF t fuzzyGreaterEqual hold_failures sorted_fanins buffer_cell buffer_delay
       allow_setup_violations s =
     repair_hold_loop sta_INF t fuzzyGreaterEqual buffer_cell buffer_delay allow_setup_violations
       (max_repair_count hold_failures) sorted_fanins 0 s"

section \<open>Tie-cell placement: \<open>Resizer::tieLocation\<close>\<close>

text \<open>
  What \<open>tieLocation\<close> reads of its load pin: the pin location, whether the pin is a
  top-level port, and the bounding box of the pin's instance (read only when the pin is not
  a top-level port).
\<close>

record load_pin =
  location :: point
  is_top_level_port :: bool
  bbox :: rect

definition tieLocation :: "resizer \<Rightarrow> load_pin \<Rightarrow> int \<Rightarrow> point" where
  "tieLocation c load separation =
    (let load_x = px (location load);
         load_y = py (location load);
         tie_x = load_x;
         tie_y = load_y;
         (tie_x, tie_y) =
           (if \<not> is_top_level_port load then
              (let left_dist = \<bar>load_x - xMin (bbox load)\<bar>;
                   right_dist = \<bar>load_x - xMax (bbox load)\<bar>;
                   bot_dist = \<bar>load_y - yMin (bbox load)\<bar>;
                   top_dist = \<bar>load_y - yMax (bbox load)\<bar>;
                   tie_x = (if left_dist < right_dist \<and> left_dist < bot_dist
                               \<and> left_dist < top_dist
                            then tie_x - separation else tie_x);
                   tie_x = (if right_dist < left_dist \<and> right_dist < bot_dist
                               \<and> right_dist < top_dist
                            then tie_x + separation else tie_x);
                   tie_y = (if bot_dist < left_dist \<and> bot_dist < right_dist
                               \<and> bot_dist < top_dist
                            then tie_y - separation else tie_y);
                   tie_y = (if top_dist < left_dist \<and> top_dist < right_dist
                               \<and> top_dist < bot_dist
                            then tie_y + separation else tie_y)
               in (tie_x, tie_y))
            else (tie_x, tie_y))
     in if core_exists c then closestPtInRect (core c) tie_x tie_y
        else \<lparr> px = tie_x, py = tie_y \<rparr>)"

text \<open>
  The design's wording of the same placement, for comparison with the code: the side of
  the bounding box that is strictly nearer to the pin than the three others, if there is
  one, and the pin location moved by the separation towards it.
\<close>

datatype side = Left | Right | Bottom | Top

definition side_dist :: "load_pin \<Rightarrow> side \<Rightarrow> int" where
  "side_dist load s =
     (case s of
        Left \<Rightarrow> \<bar>px (location load) - xMin (bbox load)\<bar>
      | Right \<Rightarrow> \<bar>px (location load) - xMax (bbox load)\<bar>
      | Bottom \<Rightarrow> \<bar>py (location load) - yMin (bbox load)\<bar>
      | Top \<Rightarrow> \<bar>py (location load) - yMax (bbox load)\<bar>)"

definition all_sides :: "side list" where
  "all_sides = [Left, Right, Bottom, Top]"

definition strictly_closest :: "load_pin \<Rightarrow> side \<Rightarrow> bool" where
  "strictly_closest load s =
     list_all (\<lambda>t. t = s \<or> side_dist load s < side_dist load t) all_sides"

definition offset_toward :: "side \<Rightarrow> int \<Rightarrow> point \<Rightarrow> point" where
  "offset_toward s separation p =
     (case s of
        Left \<Rightarrow> p\<lparr> px := px p - separation \<rparr>
      | Right \<Rightarrow> p\<lparr> px := px p + separation \<rparr>
      | Bottom \<Rightarrow> p\<lparr> py := py p - separation \<rparr>
      | Top \<Rightarrow> p\<lparr> py := py p + separation \<rparr>)"

definition clamp_to_core :: "resizer \<Rightarrow> point \<Rightarrow> point" where
  "clamp_to_core c p =
     (if core_exists c then closestPtInRect (core c) (px p) (py p) else p)"

section \<open>Example inputs\<close>

text \<open>The value \<open>1E+30\<close> for the constant \<open>INF\<close> of the timer's library.\<close>

definition INF_1E30 :: float where
  "INF_1E30 = Finite (10 ^ 30)"

definition empty_netlist :: netlist where
  "empty_netlist = \<lparr> nets = [], insts = [], conn = [], placement = [], ports = [] \<rparr>"

definition core_100 :: rect where
  "core_100 = \<lparr> xMin = 0, yMin = 0, xMax = 100, yMax = 100 \<rparr>"

definition resizer_core_100 :: resizer where
  "resizer_core_100 = (Resizer empty_netlist)\<lparr> core := core_100, core_exists := True \<rparr>"

text \<open>A net with one Steiner branch of one meter, and distinct wire constants.\<close>

definition clock_named_clk :: "string \<Rightarrow> bool" where
  "clock_named_clk n = (n = ''clk'')"

definition one_branch_tree :: "string \<Rightarrow> steiner_tree option" where
  "one_branch_tree n =
     Some \<lparr> branches = [\<lparr> pin1 = Some (InstPin ''u1'' ''Z''), steiner_pt1 = 0,
                           pin2 = Some (InstPin ''u2'' ''A''), steiner_pt2 = 1,
                           wire_length_dbu = 1000000 \<rparr>],
            steinerPtAlias = (\<lambda>k. None) \<rparr>"

definition rc_resizer :: resizer where
  "rc_resizer = (Resizer empty_netlist)
     \<lparr> wire_res := 1, wire_cap := 2, wire_clk_res := 3, wire_clk_cap := 4 \<rparr>"

text \<open>
  An instance with two connected output pins whose cell has a smaller equivalent cell
  with the better load ratio; the instance is in the set of the instances visited before.
  The two cells are inverters or not, as the argument says.
\<close>

definition cell_X1 :: "bool \<Rightarrow> liberty_cell" where
  "cell_X1 is_inv = \<lparr> cell_name = ''X1'', isBuffer = False, isInverter = is_inv,
     buffer_input = ''A'', buffer_output = ''ZN'', cell_dont_use = False, cell_area = 1,
     timingArcSets = [] \<rparr>"

definition cell_X2 :: "bool \<Rightarrow> liberty_cell" where
  "cell_X2 is_inv = \<lparr> cell_name = ''X2'', isBuffer = False, isInverter = is_inv,
     buffer_input = ''A'', buffer_output = ''ZN'', cell_dont_use = False, cell_area = 2,
     timingArcSets = [] \<rparr>"

definition two_output_netlist :: netlist where
  "two_output_netlist =
     \<lparr> nets = [(''n1'', False), (''n2'', False)],
       insts = [(''u1'', ''X2'')],
       conn = [(InstPin ''u1'' ''ZN'', ''n1''), (InstPin ''u1'' ''ZN2'', ''n2'')],
       placement = [],
       ports = [] \<rparr>"

definition sizer_example_timer :: "bool \<Rightarrow> timer" where
  "sizer_example_timer is_inv =
     \<lparr> libertyCell = (\<lambda>c. if c = ''X1'' then Some (cell_X1 is_inv)
                          else if c = ''X2'' then Some (cell_X2 is_inv)
                          else None),
       equivCells = (\<lambda>c. Some [cell_X1 is_inv, cell_X2 is_inv]),
       loadCap = (\<lambda>d p. 1),
       bufferDelay = (\<lambda>c load_cap. if cell_name c = ''X1'' then 1 else 2),
       isClock = (\<lambda>p. False),
       pin_direction = (\<lambda>p. Output),
       master_area = (\<lambda>c. if c = ''X1'' then Some 1 else Some 2) \<rparr>"

definition revisited_resizer :: resizer where
  "revisited_resizer = (Resizer two_output_netlist)
     \<lparr> resized_multi_output_insts := [''u1''],
       target_load_map := [(''X2'', Finite 2), (''X1'', Finite 1)],
       design_area := 2 \<rparr>"

definition driver_ZN :: vertex where
  "driver_ZN = \<lparr> vertex_pin = InstPin ''u1'' ''ZN'', isConstant = False, hasFanout = True \<rparr>"

definition driver_ZN2 :: vertex where
  "driver_ZN2 = \<lparr> vertex_pin = InstPin ''u1'' ''ZN2'', isConstant = False, hasFanout = True \<rparr>"




text \<open>
  A register output that drives one register input with a hold slack of \<open>-3\<close> and a setup
  slack of 10, and a buffer cell.
\<close>

definition failing_load :: "pin \<times> slacks" where
  "failing_load = (InstPin ''r1'' ''D'',
     \<lparr> rise_min = - 3, rise_max = 10, fall_min = - 3, fall_max = 10 \<rparr>)"

definition hold_example_timer :: hold_timer where
  "hold_example_timer =
     \<lparr> vertexSlack = (\<lambda>d p. - 3),
       fanout_slacks = (\<lambda>d p. [failing_load]),
       pin_location = (\<lambda>d p. \<lparr> px = 0, py = 0 \<rparr>) \<rparr>"

definition BUF_X1 :: liberty_cell where
  "BUF_X1 = \<lparr> cell_name = ''BUF_X1'', isBuffer = True, isInverter = False,
     buffer_input = ''A'', buffer_output = ''Z'', cell_dont_use = False, cell_area = 1,
     timingArcSets = [] \<rparr>"

definition hold_example_netlist :: netlist where
  "hold_example_netlist =
     \<lparr> nets = [(''n1'', False)],
       insts = [(''u1'', ''DFF_X1''), (''r1'', ''DFF_X1'')],
       conn = [(InstPin ''u1'' ''Q'', ''n1''), (InstPin ''r1'' ''D'', ''n1'')],
       placement = [],
       ports = [] \<rparr>"















text \<open>A netlist that has the first names the generators would mint.\<close>

definition named_netlist :: netlist where
  "named_netlist =
     \<lparr> nets = [(''net1'', False), (''n5'', False), (''net3'', True)],
       insts = [(''input1'', ''BUF_X1''), (''u1'', ''INV_X1'')],
       conn = [],
       placement = [],
       ports = [] \<rparr>"







definition load_near_left :: load_pin where
  "load_near_left =
     \<lparr> location = \<lparr> px = 1, py = 5 \<rparr>, is_top_level_port = False,
       bbox = \<lparr> xMin = 0, yMin = 0, xMax = 10, yMax = 10 \<rparr> \<rparr>"

section \<open>Proofs\<close>

declare string_of_nat.simps [simp del]

declare unique_name_loop.simps [simp del]


subsection \<open>Name generator\<close>

lemma string_of_nat_nonempty: "string_of_nat n \<noteq> []"
  by (subst string_of_nat.simps) simp

lemma digit_char_inj: "a < 10 \<Longrightarrow> b < 10 \<Longrightarrow> digit_char a = digit_char b \<Longrightarrow> a = b"
proof -
  assume a: "a < 10" and b: "b < 10" and e: "digit_char a = digit_char b"
  have d: "distinct ''0123456789''" by simp
  have "a < length ''0123456789''" "b < length ''0123456789''" using a b by simp_all
  with d e show "a = b" unfolding digit_char_def
    by (simp only: nth_eq_iff_index_eq)
qed

lemma digit_char_not_minus: "d < 10 \<Longrightarrow> digit_char d \<noteq> CHR ''-''"
proof -
  assume "d < 10"
  then have "digit_char d \<in> set ''0123456789''"
    unfolding digit_char_def by (intro nth_mem) simp
  then show ?thesis by auto
qed

lemma string_of_nat_inj: "string_of_nat n = string_of_nat m \<Longrightarrow> n = m"
proof (induction n arbitrary: m rule: string_of_nat.induct)
  case (1 n)
  show ?case
  proof (cases "n < 10")
    case True
    then have n: "string_of_nat n = [digit_char n]" by (subst string_of_nat.simps) simp
    show ?thesis
    proof (cases "m < 10")
      case m: True
      then have "string_of_nat m = [digit_char m]" by (subst string_of_nat.simps) simp
      with n "1.prems" have "digit_char n = digit_char m" by simp
      with True m show ?thesis by (rule digit_char_inj)
    next
      case False
      then have "string_of_nat m = string_of_nat (m div 10) @ [digit_char (m mod 10)]"
        by (subst string_of_nat.simps) simp
      with n "1.prems" have "string_of_nat (m div 10) = []" by simp
      then show ?thesis by (simp add: string_of_nat_nonempty)
    qed
  next
    case False
    then have n: "string_of_nat n = string_of_nat (n div 10) @ [digit_char (n mod 10)]"
      by (subst string_of_nat.simps) simp
    show ?thesis
    proof (cases "m < 10")
      case True
      then have "string_of_nat m = [digit_char m]" by (subst string_of_nat.simps) simp
      with n "1.prems" have "string_of_nat (n div 10) = []" by simp
      then show ?thesis by (simp add: string_of_nat_nonempty)
    next
      case m: False
      then have "string_of_nat m = string_of_nat (m div 10) @ [digit_char (m mod 10)]"
        by (subst string_of_nat.simps) simp
      with n "1.prems" have e: "string_of_nat (n div 10) = string_of_nat (m div 10)"
        and d: "digit_char (n mod 10) = digit_char (m mod 10)" by simp_all
      from "1.IH" [OF False e] have q: "n div 10 = m div 10" .
      have "n mod 10 = m mod 10" using d by (intro digit_char_inj) simp_all
      with q show ?thesis by (metis div_mult_mod_eq)
    qed
  qed
qed

lemma string_of_nat_no_minus: "CHR ''-'' \<notin> set (string_of_nat n)"
proof (induction n rule: string_of_nat.induct)
  case (1 n)
  show ?case
  proof (cases "n < 10")
    case True
    then show ?thesis
      by (subst string_of_nat.simps) (use digit_char_not_minus [of n] in auto)
  next
    case False
    with 1 show ?thesis
      by (subst string_of_nat.simps) (use digit_char_not_minus [of "n mod 10"] in auto)
  qed
qed

lemma string_of_int_inj: "string_of_int i = string_of_int j \<Longrightarrow> i = j"
proof -
  assume e: "string_of_int i = string_of_int j"
  have hd_neg: "\<And>k. k < 0 \<Longrightarrow> hd (string_of_int k) = CHR ''-''"
    by (simp add: string_of_int_def)
  have hd_pos: "\<And>k. \<not> k < 0 \<Longrightarrow> hd (string_of_int k) \<noteq> CHR ''-''"
  proof -
    fix k :: int assume "\<not> k < 0"
    then have "string_of_int k = string_of_nat (nat k)" by (simp add: string_of_int_def)
    moreover have "hd (string_of_nat (nat k)) \<in> set (string_of_nat (nat k))"
      by (simp add: string_of_nat_nonempty)
    ultimately show "hd (string_of_int k) \<noteq> CHR ''-''"
      using string_of_nat_no_minus [of "nat k"] by metis
  qed
  show "i = j"
  proof (cases "i < 0")
    case True
    then have "j < 0" using hd_neg [OF True] hd_pos [of j] e by auto
    with True e have "string_of_nat (nat (- i)) = string_of_nat (nat (- j))"
      by (simp add: string_of_int_def)
    then have "nat (- i) = nat (- j)" by (rule string_of_nat_inj)
    with True \<open>j < 0\<close> show ?thesis by simp
  next
    case False
    then have "\<not> j < 0" using hd_neg [of j] hd_pos [OF False] e by auto
    with False e have "string_of_nat (nat i) = string_of_nat (nat j)"
      by (simp add: string_of_int_def)
    then have "nat i = nat j" by (rule string_of_nat_inj)
    with False \<open>\<not> j < 0\<close> show ?thesis by simp
  qed
qed

lemma net_name_fmt_inj: "inj net_name_fmt"
  by (rule injI) (simp add: net_name_fmt_def string_of_int_inj)

lemma inst_name_fmt_inj: "inj (inst_name_fmt base u)"
  by (rule injI) (auto simp: inst_name_fmt_def dest: string_of_int_inj split: if_splits)

lemma unique_name_loop_Some:
  "unique_name_loop fmt found idx = Some (name, idx') \<Longrightarrow>
   \<exists>n. idx \<le> n \<and> n < INT_MAX \<and> name = fmt n \<and> idx' = n + 1 \<and> \<not> found (fmt n)
       \<and> (\<forall>k. idx \<le> k \<and> k < n \<longrightarrow> found (fmt k))"
proof (induction fmt found idx rule: unique_name_loop.induct)
  case (1 fmt found idx)
  show ?case
  proof (cases "found (fmt idx)")
    case True
    with "1.prems" have lt: "\<not> INT_MAX \<le> idx"
      and rec: "unique_name_loop fmt found (idx + 1) = Some (name, idx')"
      by (subst (asm) unique_name_loop.simps; simp split: if_splits)+
    from "1.IH" [OF lt True rec] obtain n where n: "idx + 1 \<le> n" "n < INT_MAX" "name = fmt n"
      "idx' = n + 1" "\<not> found (fmt n)" "\<forall>k. idx + 1 \<le> k \<and> k < n \<longrightarrow> found (fmt k)"
      by blast
    have "\<forall>k. idx \<le> k \<and> k < n \<longrightarrow> found (fmt k)"
    proof (intro allI impI)
      fix k assume "idx \<le> k \<and> k < n"
      then show "found (fmt k)" using True n(6) by (cases "k = idx") auto
    qed
    with n show ?thesis by (intro exI [of _ n]) simp
  next
    case False
    with "1.prems" have "\<not> INT_MAX \<le> idx" "name = fmt idx" "idx' = idx + 1"
      by (subst (asm) unique_name_loop.simps; simp split: if_splits)+
    with False show ?thesis by (intro exI [of _ idx]) auto
  qed
qed

lemma unique_name_loop_total:
  "idx \<le> n \<Longrightarrow> n < INT_MAX \<Longrightarrow> \<not> found (fmt n) \<Longrightarrow> unique_name_loop fmt found idx \<noteq> None"
proof (induction "nat (n - idx)" arbitrary: idx)
  case 0
  then have "idx = n" by simp
  with 0 show ?case by (subst unique_name_loop.simps) simp
next
  case (Suc m)
  then have lt: "idx < n" by simp
  show ?case
  proof (cases "found (fmt idx)")
    case True
    have "unique_name_loop fmt found (idx + 1) \<noteq> None"
      using Suc lt by (intro Suc.hyps(1)) simp_all
    with True lt Suc.prems show ?thesis by (subst unique_name_loop.simps) simp
  next
    case False
    with lt Suc.prems show ?thesis by (subst unique_name_loop.simps) simp
  qed
qed

lemma fresh_index:
  assumes "inj fmt"
  shows "\<exists>n. idx \<le> n \<and> n \<le> idx + int (length xs) \<and> fmt n \<notin> set xs"
proof (rule ccontr)
  assume "\<not> ?thesis"
  then have sub: "fmt ` {idx .. idx + int (length xs)} \<subseteq> set xs" by auto
  have "card (fmt ` {idx .. idx + int (length xs)}) = card {idx .. idx + int (length xs)}"
    using assms by (intro card_image) (auto simp: inj_on_def dest: injD)
  also have "\<dots> = length xs + 1" by simp
  finally have "length xs + 1 \<le> card (set xs)"
    using card_mono [OF _ sub] by simp
  then show False using card_length [of xs] by simp
qed

lemma unique_name_loop_headroom:
  assumes "inj fmt" and "idx + int (length xs) < INT_MAX"
  shows "unique_name_loop fmt (\<lambda>name. name \<in> set xs) idx \<noteq> None"
proof -
  from fresh_index [OF assms(1), of idx xs] obtain n where
    "idx \<le> n" "n \<le> idx + int (length xs)" "fmt n \<notin> set xs" by blast
  with assms(2) show ?thesis by (intro unique_name_loop_total [of idx n]) simp_all
qed

lemma makeUniqueNetName_Some:
  "makeUniqueNetName s = Some (name, s') \<Longrightarrow>
   \<exists>n. unique_net_index s \<le> n \<and> n < INT_MAX \<and> name = net_name_fmt n
       \<and> s' = s\<lparr> unique_net_index := n + 1 \<rparr> \<and> \<not> findNet (db s) name"
  by (auto simp: makeUniqueNetName_def split: option.splits dest!: unique_name_loop_Some)

lemma makeUniqueInstName_Some:
  "makeUniqueInstName base u s = Some (name, s') \<Longrightarrow>
   \<exists>n. unique_inst_index s \<le> n \<and> n < INT_MAX \<and> name = inst_name_fmt base u n
       \<and> s' = s\<lparr> unique_inst_index := n + 1 \<rparr> \<and> \<not> findInstance (db s) name"
  by (auto simp: makeUniqueInstName_def split: option.splits dest!: unique_name_loop_Some)

lemma findNet_set: "findNet d = (\<lambda>name. name \<in> set (map fst (nets d)))"
  by (rule ext) (simp add: findNet_def)

lemma findInstance_set: "findInstance d = (\<lambda>name. name \<in> set (map fst (insts d)))"
  by (rule ext) (simp add: findInstance_def)

lemma makeUniqueNetName_total:
  "unique_net_index s + int (length (nets (db s))) < INT_MAX \<Longrightarrow> makeUniqueNetName s \<noteq> None"
  using unique_name_loop_headroom [OF net_name_fmt_inj, of "unique_net_index s" "map fst (nets (db s))"]
  by (auto simp: makeUniqueNetName_def findNet_set split: option.splits)

lemma makeUniqueInstName_total:
  "unique_inst_index s + int (length (insts (db s))) < INT_MAX \<Longrightarrow>
   makeUniqueInstName base u s \<noteq> None"
  using unique_name_loop_headroom [OF inst_name_fmt_inj, of "unique_inst_index s"
      "map fst (insts (db s))" base u]
  by (auto simp: makeUniqueInstName_def findInstance_set split: option.splits)


text \<open>
  C4.  A call of \<open>makeUniqueNetName\<close> that returns gives a name \<open>net{n}\<close>, with \<open>n\<close> at
  least the counter before the call, that no net of the top scope has, and leaves the
  counter at \<open>n + 1\<close>, above its value before the call; it returns when the counter plus
  the number of nets stays below \<open>INT_MAX\<close>.  Likewise \<open>makeUniqueInstName\<close> with
  \<open>{base}{n}\<close> or \<open>{base}_{n}\<close> and the instances.  A name minted later differs from
  a name minted before when the netlist has the earlier name at that moment (and, for
  nets, also when the counter has not been set back).
\<close>

theorem unique_names:
  "(makeUniqueNetName s = Some (name, s') \<longrightarrow>
      (\<exists>n. name = ''net'' @ string_of_int n \<and> unique_net_index s \<le> n
           \<and> unique_net_index s' = n + 1)
      \<and> \<not> findNet (db s') name \<and> unique_net_index s < unique_net_index s')
   \<and> (unique_net_index s + int (length (nets (db s))) < INT_MAX \<longrightarrow>
        makeUniqueNetName s \<noteq> None)
   \<and> (makeUniqueInstName base u s = Some (iname, si) \<longrightarrow>
      (\<exists>n. iname = (if u then base @ ''_'' @ string_of_int n else base @ string_of_int n)
           \<and> unique_inst_index s \<le> n \<and> unique_inst_index si = n + 1)
      \<and> \<not> findInstance (db si) iname \<and> unique_inst_index s < unique_inst_index si)
   \<and> (unique_inst_index s + int (length (insts (db s))) < INT_MAX \<longrightarrow>
        makeUniqueInstName base u s \<noteq> None)
   \<and> (makeUniqueNetName s = Some (name, s') \<and> makeUniqueNetName s2 = Some (name2, s2')
        \<and> (findNet (db s2) name \<or> unique_net_index s' \<le> unique_net_index s2)
        \<longrightarrow> name2 \<noteq> name)
   \<and> (makeUniqueInstName base u s = Some (iname, si)
        \<and> makeUniqueInstName base2 u2 s2 = Some (iname2, si2)
        \<and> findInstance (db s2) iname
        \<longrightarrow> iname2 \<noteq> iname)"
proof (intro conjI impI)
  assume a: "makeUniqueNetName s = Some (name, s')"
  from makeUniqueNetName_Some [OF a] obtain n where n: "unique_net_index s \<le> n"
    "name = net_name_fmt n" "s' = s\<lparr> unique_net_index := n + 1 \<rparr>" "\<not> findNet (db s) name"
    by blast
  show "\<exists>n. name = ''net'' @ string_of_int n \<and> unique_net_index s \<le> n
      \<and> unique_net_index s' = n + 1"
    using n by (intro exI [of _ n]) (simp add: net_name_fmt_def)
  show "\<not> findNet (db s') name" using n by simp
  show "unique_net_index s < unique_net_index s'" using n by simp
next
  assume "unique_net_index s + int (length (nets (db s))) < INT_MAX"
  then show "makeUniqueNetName s \<noteq> None" by (rule makeUniqueNetName_total)
next
  assume a: "makeUniqueInstName base u s = Some (iname, si)"
  from makeUniqueInstName_Some [OF a] obtain n where n: "unique_inst_index s \<le> n"
    "iname = inst_name_fmt base u n" "si = s\<lparr> unique_inst_index := n + 1 \<rparr>"
    "\<not> findInstance (db s) iname"
    by blast
  show "\<exists>n. iname = (if u then base @ ''_'' @ string_of_int n else base @ string_of_int n)
      \<and> unique_inst_index s \<le> n \<and> unique_inst_index si = n + 1"
    using n by (intro exI [of _ n]) (simp add: inst_name_fmt_def)
  show "\<not> findInstance (db si) iname" using n by simp
  show "unique_inst_index s < unique_inst_index si" using n by simp
next
  assume "unique_inst_index s + int (length (insts (db s))) < INT_MAX"
  then show "makeUniqueInstName base u s \<noteq> None" by (rule makeUniqueInstName_total)
next
  assume a: "makeUniqueNetName s = Some (name, s') \<and> makeUniqueNetName s2 = Some (name2, s2')
      \<and> (findNet (db s2) name \<or> unique_net_index s' \<le> unique_net_index s2)"
  from a makeUniqueNetName_Some [of s name s'] obtain n where n: "name = net_name_fmt n"
    "unique_net_index s' = n + 1" by auto
  from a makeUniqueNetName_Some [of s2 name2 s2'] obtain m where m: "name2 = net_name_fmt m"
    "unique_net_index s2 \<le> m" "\<not> findNet (db s2) name2" by auto
  from a consider "findNet (db s2) name" | "unique_net_index s' \<le> unique_net_index s2" by blast
  then show "name2 \<noteq> name"
  proof cases
    case 1
    with m(3) show ?thesis by auto
  next
    case 2
    with n m have "n \<noteq> m" by simp
    then show ?thesis using n(1) m(1) net_name_fmt_inj by (auto dest: injD)
  qed
next
  assume a: "makeUniqueInstName base u s = Some (iname, si)
      \<and> makeUniqueInstName base2 u2 s2 = Some (iname2, si2) \<and> findInstance (db s2) iname"
  from a makeUniqueInstName_Some [of base2 u2 s2 iname2 si2]
  have "\<not> findInstance (db s2) iname2" by auto
  with a show "iname2 \<noteq> iname" by auto
qed

lemmas name_example_defs =
  makeUniqueNetName_def makeUniqueInstName_def unique_name_loop.simps INT_MAX_def
  findNet_def findInstance_def net_name_fmt_def inst_name_fmt_def string_of_int_def
  string_of_nat.simps digit_char_def Resizer_def named_netlist_def makeNet_def

theorem unique_names_witness:
  "makeUniqueNetName (Resizer named_netlist)
     = Some (''net2'', (Resizer named_netlist)\<lparr> unique_net_index := 3 \<rparr>)
   \<and> makeUniqueInstName ''input'' False (Resizer named_netlist)
     = Some (''input2'', (Resizer named_netlist)\<lparr> unique_inst_index := 3 \<rparr>)
   \<and> findNet named_netlist ''net1''
   \<and> \<not> findNet named_netlist ''net2''"
  using unique_names [where s = "Resizer named_netlist" and name = "''net2''"
      and s' = "(Resizer named_netlist)\<lparr> unique_net_index := 3 \<rparr>"
      and base = "''input''" and u = False and iname = "''input2''"
      and si = "(Resizer named_netlist)\<lparr> unique_inst_index := 3 \<rparr>"]
  by (simp add: name_example_defs)

subsection \<open>Hold repair\<close>

lemmas hold_example_defs =
  repairHoldPass_def max_repair_count_def hold_example_timer_def
  Resizer_def hold_example_netlist_def net_def isSpecial_def failing_load_def
  holdSlack_def setupSlack_def fmin_def hold_buffer_count_def Let_def
  makeHoldDelay_def findCenter_def div_size_def to_int32_def cdiv_def
  makeUniqueNetName_def makeUniqueInstName_def unique_name_loop.simps INT_MAX_def
  findNet_def findInstance_def net_name_fmt_def inst_name_fmt_def string_of_int_def
  string_of_nat.simps digit_char_def makeNet_def makeInstance_def connectPin_def
  setLocation_def move_pin_def disconnectPin_def overMaxArea_def BUF_X1_def INF_1E30_def

lemma hold_buffer_count_positive: "0 < d \<Longrightarrow> hold_buffer_count (Finite d) = Some 1"
  by (simp add: hold_buffer_count_def)

lemma hold_load_loop_example:
  "hold_load_loop False [failing_load] (INF_1E30, []) = (Finite 3, [InstPin ''r1'' ''D''])"
  by (simp add: failing_load_def holdSlack_def setupSlack_def fmin_def Let_def INF_1E30_def)

text \<open>
  C1.  The code at the scenario of the claim: one load with hold slack \<open>-3\<close> and setup
  slack 10, setup violations not allowed, and a buffer whose delay is 1.  The smallest
  positive delay is 3, the count \<open>std::ceil(buffer_delay / buffer_delay)\<close> is 1, and
  the pass returns 1 with one buffer \<open>hold1\<close> between the driver and the load, where the
  claim has \<open>ceil(3 / 1) = 3\<close> buffers.
\<close>

theorem repairHoldPass_inserts_one_buffer:
  "hold_load_loop False [failing_load] (INF_1E30, []) = (Finite 3, [InstPin ''r1'' ''D''])
   \<and> hold_buffer_count (Finite 3) = Some 1
   \<and> map_option
        (\<lambda>r. (fst r, inserted_buffer_count (snd r), insts (db (snd r)), conn (db (snd r))))
        (repairHoldPass INF_1E30 hold_example_timer (fuzzy_ge 0) 1 [InstPin ''u1'' ''Q''] BUF_X1 1 False
           (Resizer hold_example_netlist))
     = Some (1, 1,
             [(''u1'', ''DFF_X1''), (''r1'', ''DFF_X1''), (''hold1'', ''BUF_X1'')],
             [(InstPin ''u1'' ''Q'', ''n1''), (InstPin ''hold1'' ''A'', ''n1''),
              (InstPin ''hold1'' ''Z'', ''net1''), (InstPin ''r1'' ''D'', ''net1'')])"
proof (intro conjI)
  show "hold_load_loop False [failing_load] (INF_1E30, []) = (Finite 3, [InstPin ''r1'' ''D''])"
    by (rule hold_load_loop_example)
  show "hold_buffer_count (Finite 3) = Some 1"
    by (simp add: hold_buffer_count_positive)
  show "map_option
        (\<lambda>r. (fst r, inserted_buffer_count (snd r), insts (db (snd r)), conn (db (snd r))))
        (repairHoldPass INF_1E30 hold_example_timer (fuzzy_ge 0) 1 [InstPin ''u1'' ''Q''] BUF_X1 1 False
           (Resizer hold_example_netlist))
     = Some (1, 1,
             [(''u1'', ''DFF_X1''), (''r1'', ''DFF_X1''), (''hold1'', ''BUF_X1'')],
             [(InstPin ''u1'' ''Q'', ''n1''), (InstPin ''hold1'' ''A'', ''n1''),
              (InstPin ''hold1'' ''Z'', ''net1''), (InstPin ''r1'' ''D'', ''net1'')])"
    by (simp add: hold_example_defs)
qed

theorem repairHoldPass_inserts_one_buffer_witness:
  "map_option fst
     (repairHoldPass INF_1E30 hold_example_timer (fuzzy_ge 0) 1 [InstPin ''u1'' ''Q''] BUF_X1 1 False
        (Resizer hold_example_netlist))
   = Some 1"
proof -
  let ?r = "repairHoldPass INF_1E30 hold_example_timer (fuzzy_ge 0) 1 [InstPin ''u1'' ''Q''] BUF_X1 1
              False (Resizer hold_example_netlist)"
  from repairHoldPass_inserts_one_buffer obtain x where "?r = Some x" "fst x = 1"
    by (cases ?r) auto
  then show ?thesis by simp
qed

subsection \<open>Parasitic estimator\<close>

lemmas parasitic_example_defs =
  estimateWireParasitic_def clock_named_clk_def one_branch_tree_def
  rc_resizer_def Resizer_def empty_netlist_def hasTopLevelPort_def pinIterator_def
  branch_parasitics_def findParasiticNode_def dbuToMeters_def Let_def

text \<open>
  C2.  The code on a net the TIMER reports as a clock and on a net it does not, each with
  one branch of one meter, signal constants \<open>(1, 2)\<close> and clock constants \<open>(3, 4)\<close>:
  the clock net gets the signal constants (resistance 1, capacitance 2) and the other net
  the clock constants (resistance 3, capacitance 4), since \<open>is_clk\<close> is
  \<open>!sta_->isClock(net)\<close>.  The claim has them the other way round.
\<close>

theorem estimateWireParasitic_inverts_clock_test:
  "estimateWireParasitic 1 clock_named_clk one_branch_tree rc_resizer ''clk''
     = [IncrCap (PinNode (InstPin ''u1'' ''Z'')) 1,
        MakeResistor (PinNode (InstPin ''u1'' ''Z'')) (PinNode (InstPin ''u2'' ''A'')) 1,
        IncrCap (PinNode (InstPin ''u2'' ''A'')) 1]
   \<and> estimateWireParasitic 1 clock_named_clk one_branch_tree rc_resizer ''sig''
     = [IncrCap (PinNode (InstPin ''u1'' ''Z'')) 2,
        MakeResistor (PinNode (InstPin ''u1'' ''Z'')) (PinNode (InstPin ''u2'' ''A'')) 3,
        IncrCap (PinNode (InstPin ''u2'' ''A'')) 2]"
  by (simp add: parasitic_example_defs)

theorem estimateWireParasitic_inverts_clock_test_witness:
  "clock_named_clk ''clk''
   \<and> estimateWireParasitic 1 clock_named_clk one_branch_tree rc_resizer ''clk'' ! 1
     = MakeResistor (PinNode (InstPin ''u1'' ''Z'')) (PinNode (InstPin ''u2'' ''A''))
         (wire_res rc_resizer)"
  using estimateWireParasitic_inverts_clock_test
  by (simp add: clock_named_clk_def rc_resizer_def Resizer_def)

subsection \<open>Gate sizer\<close>














subsection \<open>Area budget\<close>

lemma resizeToTargetSlew_pin_max_area [simp]:
  "max_area (resizeToTargetSlew_pin t p s) = max_area s"
  by (simp add: resizeToTargetSlew_pin_def swap_cell_def Let_def split: option.splits)

lemma resizeToTargetSlew_pin_warnings [simp]:
  "warnings (resizeToTargetSlew_pin t p s) = warnings s"
  by (simp add: resizeToTargetSlew_pin_def swap_cell_def Let_def split: option.splits)

lemma resize_edits_warnings [simp]: "warnings (resize_edits t ds s) = warnings s"
  by (induction ds arbitrary: s) simp_all

lemma resize_edits_max_area [simp]: "max_area (resize_edits t ds s) = max_area s"
  by (induction ds arbitrary: s) simp_all

lemma resize_loop_no_budget:
  "max_area s = 0 \<Longrightarrow> resize_loop t fge ds s = resize_edits t ds s"
  by (induction ds arbitrary: s) (simp_all add: overMaxArea_def Let_def)



lemma makeUniqueNetName_frame:
  "makeUniqueNetName s = Some (name, s') \<Longrightarrow> \<exists>idx. s' = s\<lparr> unique_net_index := idx \<rparr>"
  by (auto simp: makeUniqueNetName_def split: option.splits)

lemma makeUniqueInstName_frame:
  "makeUniqueInstName base u s = Some (name, s') \<Longrightarrow>
   \<exists>idx. s' = s\<lparr> unique_inst_index := idx \<rparr>"
  by (auto simp: makeUniqueInstName_def split: option.splits)

lemma hold_buffer_loop_budget:
  "hold_buffer_loop cell loc dx dy i k (s, a, b) = Some (s', a', b') \<Longrightarrow>
   max_area s' = max_area s \<and> warnings s' = warnings s"
proof (induction k arbitrary: i s a b)
  case 0
  then show ?case by simp
next
  case (Suc k)
  from Suc.prems obtain s1 a1 b1 where
    rec: "hold_buffer_loop cell loc dx dy (i + 1) k (s1, a1, b1) = Some (s', a', b')"
    and frame: "max_area s1 = max_area s \<and> warnings s1 = warnings s"
    by (auto simp: Let_def split: Option.bind_splits prod.splits
        dest!: makeUniqueNetName_frame makeUniqueInstName_frame)
  from Suc.IH [OF rec] frame show ?case by simp
qed

lemma makeHoldDelay_budget:
  "makeHoldDelay t p n loads cell s = Some s' \<Longrightarrow>
   max_area s' = max_area s \<and> warnings s' = warnings s"
  by (auto simp: makeHoldDelay_def Let_def
      split: Option.bind_splits prod.splits option.splits if_splits
      dest!: hold_buffer_loop_budget)

lemma repair_hold_loop_Cons:
  "repair_hold_loop sta_INF t fge cell bd allow m (d # ds) n s = Some r \<Longrightarrow>
   (r = (n, s))
   \<or> repair_hold_loop sta_INF t fge cell bd allow m ds n s = Some r
   \<or> (\<exists>c s1. makeHoldDelay t d c
                  (snd (hold_load_loop allow (fanout_slacks t (db s) d) (sta_INF, []))) cell s
                = Some s1
              \<and> ((overMaxArea fge s1 \<and> r = (n + c, warn ''max utilization reached.'' s1))
                 \<or> repair_hold_loop sta_INF t fge cell bd allow m ds (n + c) s1 = Some r))"
  by (simp add: Let_def split: if_splits option.splits) blast+

lemma repair_hold_loop_no_budget:
  "repair_hold_loop sta_INF t fge cell bd allow m ds n s = Some (n', s') \<Longrightarrow> max_area s = 0 \<Longrightarrow>
   warnings s' = warnings s \<and> max_area s' = 0"
proof (induction ds arbitrary: n s)
  case Nil
  then show ?case by simp
next
  case (Cons d ds)
  let ?loads = "hold_load_loop allow (fanout_slacks t (db s) d) (sta_INF, [])"
  from repair_hold_loop_Cons [OF Cons.prems(1)]
  consider (finished) "(n', s') = (n, s)"
    | (skipped) "repair_hold_loop sta_INF t fge cell bd allow m ds n s = Some (n', s')"
    | (delayed) c s1 where "makeHoldDelay t d c (snd ?loads) cell s = Some s1"
        "(overMaxArea fge s1 \<and> (n', s') = (n + c, warn ''max utilization reached.'' s1))
          \<or> repair_hold_loop sta_INF t fge cell bd allow m ds (n + c) s1 = Some (n', s')"
    by blast
  then show ?case
  proof cases
    case finished
    then show ?thesis using Cons.prems(2) by simp
  next
    case skipped
    then show ?thesis using Cons.IH Cons.prems(2) by blast
  next
    case delayed
    from makeHoldDelay_budget [OF delayed(1)] Cons.prems(2)
    have s1: "max_area s1 = 0" "warnings s1 = warnings s" by simp_all
    then have "\<not> overMaxArea fge s1" by (simp add: overMaxArea_def)
    with delayed(2) have "repair_hold_loop sta_INF t fge cell bd allow m ds (n + c) s1 = Some (n', s')"
      by blast
    from Cons.IH [OF this] s1 show ?thesis by simp
  qed
qed

text \<open>
  C10.  With \<open>max_area\<close> 0, the value the constructor gives it, \<open>overMaxArea\<close> is false
  whatever the design area and the comparison are: the loop of \<open>resizeToTargetSlew\<close>
  makes the edits of all its drivers and neither it nor a hold-repair pass that returns
  adds a warning.
\<close>

theorem overMaxArea_without_budget:
  "\<not> overMaxArea fge (s\<lparr> max_area := 0 \<rparr>)
   \<and> max_area (Resizer d) = 0
   \<and> (max_area s = 0 \<longrightarrow>
        resize_loop t fge ds s = resize_edits t ds s
        \<and> warnings (resizeToTargetSlew t fge ds s) = warnings s)
   \<and> (max_area s = 0 \<and> repairHoldPass sta_INF ht fge k fanins cell bd allow s = Some (n, s') \<longrightarrow>
        warnings s' = warnings s)"
proof (intro conjI impI)
  show "\<not> overMaxArea fge (s\<lparr> max_area := 0 \<rparr>)" by (simp add: overMaxArea_def)
  show "max_area (Resizer d) = 0" by (simp add: Resizer_def)
next
  assume "max_area s = 0"
  then show "resize_loop t fge ds s = resize_edits t ds s" by (rule resize_loop_no_budget)
next
  assume "max_area s = 0"
  then show "warnings (resizeToTargetSlew t fge ds s) = warnings s"
    by (simp add: resizeToTargetSlew_def Let_def printf_def resize_loop_no_budget)
next
  assume "max_area s = 0 \<and> repairHoldPass sta_INF ht fge k fanins cell bd allow s = Some (n, s')"
  then show "warnings s' = warnings s"
    using repair_hold_loop_no_budget by (simp add: repairHoldPass_def) blast
qed

theorem overMaxArea_without_budget_witness:
  "max_area revisited_resizer = 0
   \<and> warnings (resizeToTargetSlew (sizer_example_timer False) (fuzzy_ge 0)
        [driver_ZN2, driver_ZN] revisited_resizer) = []"
  using overMaxArea_without_budget [of "fuzzy_ge 0" revisited_resizer empty_netlist
      "sizer_example_timer False" "[driver_ZN2, driver_ZN]" INF_1E30 hold_example_timer 0 "[]"
      BUF_X1 0
      False 0 revisited_resizer]
  by (simp add: revisited_resizer_def Resizer_def)

lemma hold_buffer_loop_Suc:
  "hold_buffer_loop cell loc dx dy i (Suc k) (s, a, b) = Some r \<Longrightarrow>
   \<exists>s1 a1. hold_buffer_loop cell loc dx dy (i + 1) k (s1, a1, Some a1) = Some r"
  by (auto simp: Let_def split: Option.bind_splits prod.splits)

lemma hold_buffer_loop_out:
  "hold_buffer_loop cell loc dx dy i k (s, a, Some x) = Some (s', a', b') \<Longrightarrow> b' \<noteq> None"
proof (induction k arbitrary: i s a x)
  case 0
  then show ?case by auto
next
  case (Suc k)
  from hold_buffer_loop_Suc [OF Suc.prems] obtain s1 a1 where
    "hold_buffer_loop cell loc dx dy (i + 1) k (s1, a1, Some a1) = Some (s', a', b')"
    by blast
  then show ?case by (rule Suc.IH)
qed

lemma hold_buffer_loop_none:
  "hold_buffer_loop cell loc dx dy i k (s, a, b) = Some (s', a', None) \<Longrightarrow> k = 0"
proof (cases k)
  case 0
  then show ?thesis by simp
next
  case (Suc j)
  assume "hold_buffer_loop cell loc dx dy i k (s, a, b) = Some (s', a', None)"
  with Suc obtain s1 a1 where
    "hold_buffer_loop cell loc dx dy (i + 1) j (s1, a1, Some a1) = Some (s', a', None)"
    using hold_buffer_loop_Suc by blast
  from hold_buffer_loop_out [OF this] show ?thesis by simp
qed



declare repair_hold_loop.simps(2) [simp del]



















subsection \<open>Target-load model\<close>



























subsection \<open>Tie-cell placement\<close>

lemma strictly_closest_unique:
  "strictly_closest load s \<Longrightarrow> strictly_closest load t \<Longrightarrow> s = t"
  by (cases s; cases t) (auto simp: strictly_closest_def all_sides_def)

lemma tieLocation_closest:
  "\<not> is_top_level_port load \<Longrightarrow> strictly_closest load s \<Longrightarrow>
   tieLocation c load separation
     = clamp_to_core c (offset_toward s separation (location load))"
  by (cases s)
     (auto simp: tieLocation_def clamp_to_core_def strictly_closest_def all_sides_def
        side_dist_def offset_toward_def Let_def)

lemma tieLocation_no_closest:
  "\<not> is_top_level_port load \<Longrightarrow> \<forall>s. \<not> strictly_closest load s \<Longrightarrow>
   tieLocation c load separation = clamp_to_core c (location load)"
proof -
  assume top: "\<not> is_top_level_port load" and none: "\<forall>s. \<not> strictly_closest load s"
  have "\<not> strictly_closest load Left" "\<not> strictly_closest load Right"
    "\<not> strictly_closest load Bottom" "\<not> strictly_closest load Top"
    using none by blast+
  then show ?thesis using top
    by (cases "location load")
       (auto simp: tieLocation_def clamp_to_core_def strictly_closest_def all_sides_def
          side_dist_def Let_def)
qed

text \<open>
  C8.  For a load pin on an instance, \<open>tieLocation\<close> moves the pin location by the
  separation towards the side of the instance's bounding box that is strictly nearer to the
  pin than the three other sides; there is at most one such side; when there is none the
  point is the pin location; and when a core rectangle exists the point is replaced by the
  closest point of the core (\<open>clamp_to_core\<close>).
\<close>

theorem tieLocation_nearest_side:
  assumes "\<not> is_top_level_port load"
  shows "(strictly_closest load s \<longrightarrow>
            tieLocation c load separation
              = clamp_to_core c (offset_toward s separation (location load)))
       \<and> ((\<forall>t. \<not> strictly_closest load t) \<longrightarrow>
            tieLocation c load separation = clamp_to_core c (location load))
       \<and> (strictly_closest load s \<and> strictly_closest load t \<longrightarrow> s = t)
       \<and> (core_exists c \<longrightarrow>
            xMin (core c) \<le> xMax (core c) \<and> yMin (core c) \<le> yMax (core c) \<longrightarrow>
            xMin (core c) \<le> px (tieLocation c load separation)
            \<and> px (tieLocation c load separation) \<le> xMax (core c)
            \<and> yMin (core c) \<le> py (tieLocation c load separation)
            \<and> py (tieLocation c load separation) \<le> yMax (core c))"
proof (intro conjI impI)
  assume "strictly_closest load s"
  with assms show "tieLocation c load separation
      = clamp_to_core c (offset_toward s separation (location load))"
    by (rule tieLocation_closest)
next
  assume "\<forall>t. \<not> strictly_closest load t"
  with assms show "tieLocation c load separation = clamp_to_core c (location load)"
    by (rule tieLocation_no_closest)
next
  assume "strictly_closest load s \<and> strictly_closest load t"
  then show "s = t" using strictly_closest_unique by blast
next
  assume c: "core_exists c"
    and xy: "xMin (core c) \<le> xMax (core c) \<and> yMin (core c) \<le> yMax (core c)"
  have "\<And>x y. tieLocation c load separation = closestPtInRect (core c) x y
      \<Longrightarrow> xMin (core c) \<le> px (tieLocation c load separation)
         \<and> px (tieLocation c load separation) \<le> xMax (core c)
         \<and> yMin (core c) \<le> py (tieLocation c load separation)
         \<and> py (tieLocation c load separation) \<le> yMax (core c)"
    using xy by (simp add: closestPtInRect_def clamp_def)
  moreover have "\<exists>x y. tieLocation c load separation = closestPtInRect (core c) x y"
    using c by (simp add: tieLocation_def Let_def split_def) blast
  ultimately show "xMin (core c) \<le> px (tieLocation c load separation)"
    "px (tieLocation c load separation) \<le> xMax (core c)"
    "yMin (core c) \<le> py (tieLocation c load separation)"
    "py (tieLocation c load separation) \<le> yMax (core c)"
    by blast+
qed

theorem tieLocation_nearest_side_witness:
  "\<not> is_top_level_port load_near_left
   \<and> strictly_closest load_near_left Left
   \<and> core_exists resizer_core_100
   \<and> tieLocation resizer_core_100 load_near_left 3 = \<lparr> px = 0, py = 5 \<rparr>"
  using tieLocation_nearest_side [of load_near_left Left resizer_core_100 3 Left]
  by (simp add: load_near_left_def resizer_core_100_def core_100_def Resizer_def
      strictly_closest_def all_sides_def side_dist_def clamp_to_core_def
      offset_toward_def closestPtInRect_def clamp_def)

subsection \<open>Netlist operations\<close>

lemma net_connectPin [simp]: "net (connectPin p n d) q = (if q = p then Some n else net d q)"
  by (simp add: net_def connectPin_def update_conv')

lemma net_disconnectPin [simp]: "net (disconnectPin p d) q = (if q = p then None else net d q)"
  by (simp add: net_def disconnectPin_def delete_conv')

lemma net_move_pin [simp]: "net (move_pin p n d) q = (if q = p then Some n else net d q)"
  by (simp add: move_pin_def)


lemma wf_connectPin [simp]: "wf_conn d \<Longrightarrow> wf_conn (connectPin p n d)"
  by (simp add: wf_conn_def connectPin_def distinct_update)

lemma wf_disconnectPin [simp]: "wf_conn d \<Longrightarrow> wf_conn (disconnectPin p d)"
  by (simp add: wf_conn_def disconnectPin_def distinct_delete)

lemma wf_move_pin [simp]: "wf_conn d \<Longrightarrow> wf_conn (move_pin p n d)"
  by (simp add: move_pin_def)

lemma wf_rewire_except [simp]: "wf_conn d \<Longrightarrow> wf_conn (rewire_except keep n ps d)"
  by (induction ps arbitrary: d) auto

lemma pinIterator_iff: "wf_conn d \<Longrightarrow> q \<in> set (pinIterator d n) \<longleftrightarrow> net d q = Some n"
proof -
  assume "wf_conn d"
  then have m: "\<And>m. map_of (conn d) q = Some m \<longleftrightarrow> (q, m) \<in> set (conn d)"
    by (simp add: wf_conn_def)
  have "q \<in> set (pinIterator d n) \<longleftrightarrow> (q, n) \<in> set (conn d)"
    by (force simp: pinIterator_def)
  then show ?thesis by (simp add: net_def m)
qed

lemma hasTopLevelPort_loop_iff:
  "has_top_level_port_loop ps b \<longleftrightarrow> b \<or> (\<exists>q \<in> set ps. isTopLevelPort q)"
  by (induction ps arbitrary: b) auto

lemma hasTopLevelPort_iff:
  "wf_conn d \<Longrightarrow> hasTopLevelPort d n \<longleftrightarrow> (\<exists>p. net d (TopPort p) = Some n)"
proof -
  assume wf: "wf_conn d"
  have "(\<exists>q \<in> set (pinIterator d n). isTopLevelPort q) \<longleftrightarrow> (\<exists>p. TopPort p \<in> set (pinIterator d n))"
  proof
    assume "\<exists>q \<in> set (pinIterator d n). isTopLevelPort q"
    then obtain q where q: "q \<in> set (pinIterator d n)" "isTopLevelPort q" by blast
    have "\<exists>p. q = TopPort p" using q(2) by (cases q rule: pin.exhaust) auto
    with q(1) show "\<exists>p. TopPort p \<in> set (pinIterator d n)" by auto
  next
    assume "\<exists>p. TopPort p \<in> set (pinIterator d n)"
    then show "\<exists>q \<in> set (pinIterator d n). isTopLevelPort q" by force
  qed
  then show ?thesis using wf
    by (simp add: hasTopLevelPort_def hasTopLevelPort_loop_iff pinIterator_iff)
qed

lemma connectPin_frame [simp]:
  "nets (connectPin p n d) = nets d" "insts (connectPin p n d) = insts d"
  "placement (connectPin p n d) = placement d" "ports (connectPin p n d) = ports d"
  by (simp_all add: connectPin_def)

lemma disconnectPin_frame [simp]:
  "nets (disconnectPin p d) = nets d" "insts (disconnectPin p d) = insts d"
  "placement (disconnectPin p d) = placement d" "ports (disconnectPin p d) = ports d"
  by (simp_all add: disconnectPin_def)

lemma move_pin_frame [simp]:
  "nets (move_pin p n d) = nets d" "insts (move_pin p n d) = insts d"
  "placement (move_pin p n d) = placement d" "ports (move_pin p n d) = ports d"
  by (simp_all add: move_pin_def)

lemma rewire_except_frame [simp]:
  "nets (rewire_except keep n ps d) = nets d" "insts (rewire_except keep n ps d) = insts d"
  "placement (rewire_except keep n ps d) = placement d"
  "ports (rewire_except keep n ps d) = ports d"
  by (induction ps arbitrary: d) simp_all

lemma makeNet_frame [simp]:
  "nets (makeNet name d) = nets d @ [(name, False)]" "insts (makeNet name d) = insts d"
  "conn (makeNet name d) = conn d" "placement (makeNet name d) = placement d"
  "ports (makeNet name d) = ports d" "net (makeNet name d) q = net d q"
  "pinIterator (makeNet name d) n = pinIterator d n" "wf_conn (makeNet name d) = wf_conn d"
  by (simp_all add: makeNet_def net_def pinIterator_def wf_conn_def)

lemma setLocation_frame [simp]:
  "nets (setLocation i pt d) = nets d" "insts (setLocation i pt d) = insts d"
  "conn (setLocation i pt d) = conn d" "ports (setLocation i pt d) = ports d"
  "net (setLocation i pt d) q = net d q"
  "pinIterator (setLocation i pt d) n = pinIterator d n"
  "wf_conn (setLocation i pt d) = wf_conn d"
  "placement (setLocation i pt d) = AList.update i pt (placement d)"
  by (simp_all add: setLocation_def net_def pinIterator_def wf_conn_def)

lemma makeInstance_Some:
  "makeInstance cell name d = Some d' \<longleftrightarrow>
   \<not> findInstance d name \<and> d' = d\<lparr> insts := insts d @ [(name, cell)] \<rparr>"
  by (auto simp: makeInstance_def)


subsection \<open>Port buffer inserter\<close>



lemma findNet_append: "findNet (d\<lparr> nets := nets d @ [(k, b)] \<rparr>) n \<longleftrightarrow> findNet d n \<or> n = k"
  by (auto simp: findNet_def)























end
